theory Spec2Isabelle
  imports Complex_Main "HOL-Library.Option_ord" "HOL-Library.Product_Lexorder"
begin

section \<open>Python values, errors and data frames\<close>

text \<open>
  The analytics class of \<^verbatim>\<open>database_connection.py\<close> talks to three collaborators:
  the MySQL driver, pandas and the Python runtime. What they hand back is modelled by
  values: an exception is the left summand of a result, a value the right one.
  Decimal and floating-point numbers are rationals (binary rounding is not modelled);
  dates are day numbers.
\<close>

datatype py_error =
  KeyError | TypeError | ValueError | ZeroDivisionError | IndexError | DatabaseError

definition bindE :: "('e + 'a) \<Rightarrow> ('a \<Rightarrow> 'e + 'b) \<Rightarrow> 'e + 'b" where
  "bindE m f = (case m of Inl e \<Rightarrow> Inl e | Inr x \<Rightarrow> f x)"

text \<open>
  A cell of a data frame: \<open>PyNone\<close> is Python's None (pandas keeps it in a column whose
  values are all NULL, and in a text column), \<open>NaN\<close> the missing value of a numeric
  column that also holds numbers.
\<close>

datatype cell = PyNone | NaN | IntV int | NumV rat | StrV string | DateV int

text \<open>A Python number as the summary dictionary holds it: an int, a float, or nan.\<close>

datatype pynum = PyInt int | PyFloat rat | PyNaN

record dataframe =
  columns :: "string list"
  rows :: "cell list list"

text \<open>\<^verbatim>\<open>pd.DataFrame()\<close>: no column and no row.\<close>

definition DataFrame :: dataframe where
  "DataFrame = \<lparr>columns = [], rows = []\<rparr>"

text \<open>\<^verbatim>\<open>df.empty\<close>: true when either axis has length zero.\<close>

definition df_empty :: "dataframe \<Rightarrow> bool" where
  "df_empty df = (columns df = [] \<or> rows df = [])"

text \<open>\<^verbatim>\<open>row[col]\<close>: the cell under the first column of that name, KeyError when no
  column has it.\<close>

definition row_get :: "string list \<Rightarrow> cell list \<Rightarrow> string \<Rightarrow> py_error + cell" where
  "row_get cols r col =
     (case map_of (zip cols r) col of None \<Rightarrow> Inl KeyError | Some c \<Rightarrow> Inr c)"

text \<open>\<^verbatim>\<open>df.iloc[0][col]\<close>: the first row, then the column.\<close>

definition iloc0 :: "dataframe \<Rightarrow> string \<Rightarrow> py_error + cell" where
  "iloc0 df col =
     (case rows df of [] \<Rightarrow> Inl IndexError | r # _ \<Rightarrow> row_get (columns df) r col)"

text \<open>\<^verbatim>\<open>df[col]\<close>: the column as a list, KeyError when the frame has no such column.\<close>

definition df_column :: "dataframe \<Rightarrow> string \<Rightarrow> py_error + cell list" where
  "df_column df col =
     (if col \<in> set (columns df)
      then Inr (map (\<lambda>r. case map_of (zip (columns df) r) col of None \<Rightarrow> PyNone | Some c \<Rightarrow> c)
                  (rows df))
      else Inl KeyError)"

text \<open>\<^verbatim>\<open>df.head(n)\<close>.\<close>

definition head :: "nat \<Rightarrow> dataframe \<Rightarrow> dataframe" where
  "head n df = df\<lparr>rows := take n (rows df)\<rparr>"

text \<open>
  The parts of the Python runtime whose output is text or comes from text: parsing a
  string as a number and printing a number. They are parameters of the model; no digit
  they produce is fixed here.
\<close>

record pyrt =
  float_of_str :: "string \<Rightarrow> pynum option"
  int_of_str :: "string \<Rightarrow> int option"
  fmt_money :: "pynum \<Rightarrow> string"
  fmt_group :: "pynum \<Rightarrow> string"
  str_num :: "pynum \<Rightarrow> string"
  str_date :: "int \<Rightarrow> string"

text \<open>\<^verbatim>\<open>float(x)\<close> on a cell.\<close>

definition py_float :: "pyrt \<Rightarrow> cell \<Rightarrow> py_error + pynum" where
  "py_float rt c =
     (case c of
        PyNone \<Rightarrow> Inl TypeError
      | NaN \<Rightarrow> Inr PyNaN
      | IntV n \<Rightarrow> Inr (PyFloat (of_int n))
      | NumV q \<Rightarrow> Inr (PyFloat q)
      | StrV s \<Rightarrow> (case float_of_str rt s of None \<Rightarrow> Inl ValueError | Some x \<Rightarrow> Inr x)
      | DateV d \<Rightarrow> Inl TypeError)"

text \<open>\<^verbatim>\<open>int(x)\<close> on a cell: a number is truncated towards zero.\<close>

definition trunc :: "rat \<Rightarrow> int" where
  "trunc q = (if 0 \<le> q then \<lfloor>q\<rfloor> else \<lceil>q\<rceil>)"

definition py_int :: "pyrt \<Rightarrow> cell \<Rightarrow> py_error + int" where
  "py_int rt c =
     (case c of
        PyNone \<Rightarrow> Inl TypeError
      | NaN \<Rightarrow> Inl ValueError
      | IntV n \<Rightarrow> Inr n
      | NumV q \<Rightarrow> Inr (trunc q)
      | StrV s \<Rightarrow> (case int_of_str rt s of None \<Rightarrow> Inl ValueError | Some n \<Rightarrow> Inr n)
      | DateV d \<Rightarrow> Inl TypeError)"

text \<open>\<^verbatim>\<open>d[k]\<close> on a dictionary.\<close>

definition dict_get :: "('k \<rightharpoonup> 'v) \<Rightarrow> 'k \<Rightarrow> py_error + 'v" where
  "dict_get d k = (case d k of None \<Rightarrow> Inl KeyError | Some v \<Rightarrow> Inr v)"

section \<open>The data access gateway\<close>

text \<open>
  The driver's objects. A connection runs a query text with its parameters and gives a
  frame or raises; closing a cursor or a connection may raise.
\<close>

record cursor_handle =
  cursor_close_raises :: bool
  cursor_open :: bool

record connection_handle =
  conn_run :: "string \<Rightarrow> cell list option \<Rightarrow> py_error + dataframe"
  conn_close_raises :: bool
  conn_open :: bool

text \<open>The fields \<^verbatim>\<open>__init__\<close> sets, but for the configuration.\<close>

record session =
  connection :: "connection_handle option"
  cursor :: "cursor_handle option"
  connected :: bool

definition init :: session where
  "init = \<lparr>connection = None, cursor = None, connected = False\<rparr>"

text \<open>
  \<^verbatim>\<open>connect_database\<close>: the driver either raises its error or hands over a
  connection, whose \<^verbatim>\<open>cursor()\<close> either raises or gives a cursor. The result is
  the session and the boolean returned.
\<close>

definition connect_database ::
  "(py_error + connection_handle) \<Rightarrow> (py_error + cursor_handle) \<Rightarrow> session \<Rightarrow> session \<times> bool" where
  "connect_database driver_connect new_cursor s =
     (case driver_connect of
        Inl err \<Rightarrow> (s\<lparr>connected := False\<rparr>, False)
      | Inr con \<Rightarrow>
          (case new_cursor of
             Inl err \<Rightarrow> (s\<lparr>connection := Some con, connected := False\<rparr>, False)
           | Inr cur \<Rightarrow>
               (s\<lparr>connection := Some con, cursor := Some cur, connected := True\<rparr>, True)))"

text \<open>\<^verbatim>\<open>pd.read_sql(query, con, params=params)\<close>.\<close>

definition read_sql ::
  "string \<Rightarrow> connection_handle option \<Rightarrow> cell list option \<Rightarrow> py_error + dataframe" where
  "read_sql query con params =
     (case con of
        None \<Rightarrow> Inl TypeError
      | Some c \<Rightarrow> if conn_open c then conn_run c query params else Inl DatabaseError)"

text \<open>
  \<^verbatim>\<open>execute_query\<close>: the guard on the flag, then the query inside
  \<^verbatim>\<open>try ... except Exception\<close>.
\<close>

definition execute_query ::
  "session \<Rightarrow> string \<Rightarrow> cell list option \<Rightarrow> py_error + dataframe" where
  "execute_query s query params =
     (if \<not> connected s then Inr DataFrame
      else (case read_sql query (connection s) params of
              Inr df \<Rightarrow> Inr df
            | Inl e \<Rightarrow> Inr DataFrame))"

text \<open>
  \<^verbatim>\<open>close_connection\<close>: the cursor, then the connection, then the flag, all inside
  one \<^verbatim>\<open>try\<close>; the handler only prints a warning.
\<close>

definition cursor_close :: "cursor_handle \<Rightarrow> py_error + cursor_handle" where
  "cursor_close c =
     (if cursor_close_raises c then Inl DatabaseError else Inr (c\<lparr>cursor_open := False\<rparr>))"

definition conn_close :: "connection_handle \<Rightarrow> py_error + connection_handle" where
  "conn_close c =
     (if conn_close_raises c then Inl DatabaseError else Inr (c\<lparr>conn_open := False\<rparr>))"

definition close_connection :: "session \<Rightarrow> py_error + session" where
  "close_connection s =
     (case (case cursor s of None \<Rightarrow> Inr None | Some c \<Rightarrow> bindE (cursor_close c) (\<lambda>c'. Inr (Some c'))) of
        Inl e \<Rightarrow> Inr s
      | Inr cur \<Rightarrow>
          (let s1 = s\<lparr>cursor := cur\<rparr> in
           case (case connection s1 of None \<Rightarrow> Inr None
                 | Some c \<Rightarrow> bindE (conn_close c) (\<lambda>c'. Inr (Some c'))) of
             Inl e \<Rightarrow> Inr s1
           | Inr con \<Rightarrow> Inr (s1\<lparr>connection := con, connected := False\<rparr>)))"

section \<open>The metric queries\<close>

text \<open>The query texts, as the methods hold them (one literal per source line).\<close>

definition revenue_query :: string where
  "revenue_query = ''SELECT SUM(Total_cost) as total_revenue FROM Orders WHERE Order_Status != 'Cancelled'' @ [CHR 0x27]"

definition orders_query :: string where
  "orders_query = ''SELECT COUNT(*) as total_orders FROM Orders WHERE Order_Status != 'Cancelled'' @ [CHR 0x27]"

definition reps_query :: string where
  "reps_query = ''SELECT COUNT(DISTINCT Representative_ID) as active_reps FROM Sales_Representative''"

definition inventory_query :: string where
  "inventory_query = concat
     [''\<newline>'',
      ''        SELECT SUM(p.Price * i.Quantity) as inventory_value \<newline>'',
      ''        FROM Product p \<newline>'',
      ''        JOIN Inventory i ON p.Product_ID = i.Product_ID\<newline>'',
      ''        '']"

definition sales_performance_query :: string where
  "sales_performance_query = concat
     [''\<newline>'',
      ''        SELECT \<newline>'',
      ''            sr.Name AS Representative_Name,\<newline>'',
      ''            r.Name AS Region_Name,\<newline>'',
      ''            sr.Performance_Rating,\<newline>'',
      ''            COUNT(DISTINCT o.Order_ID) AS Total_Orders,\<newline>'',
      ''            SUM(o.Total_cost) AS Total_Sales,\<newline>'',
      ''            AVG(o.Total_cost) AS Average_Order_Value,\<newline>'',
      ''            COUNT(DISTINCT i.Customer_ID) AS Unique_Customers,\<newline>'',
      ''            MAX(o.Date) AS Last_Order_Date,\<newline>'',
      ''            DATEDIFF(CURDATE(), MAX(o.Date)) AS Days_Since_Last_Order\<newline>'',
      ''        FROM Sales_Representative sr\<newline>'',
      ''        JOIN Region r ON sr.Region_ID = r.Region_ID\<newline>'',
      ''        LEFT JOIN Orders o ON sr.Representative_ID = o.Representative_ID\<newline>'',
      ''        LEFT JOIN Interaction i ON sr.Representative_ID = i.Representative_ID\<newline>'',
      ''        WHERE o.Order_Status != 'Cancelled' OR o.Order_Status IS NULL\<newline>'',
      ''        GROUP BY sr.Representative_ID, sr.Name, r.Name, sr.Performance_Rating\<newline>'',
      ''        ORDER BY Total_Sales DESC\<newline>'',
      ''        '']"

definition inventory_status_query :: string where
  "inventory_status_query = concat
     [''\<newline>'',
      ''        SELECT \<newline>'',
      ''            p.Name AS Product_Name,\<newline>'',
      ''            p.Category,\<newline>'',
      ''            p.Price,\<newline>'',
      ''            i.Quantity AS Current_Stock,\<newline>'',
      ''            i.Reorder_Level,\<newline>'',
      ''            (p.Price * i.Quantity) AS Total_Value,\<newline>'',
      ''            i.Location,\<newline>'',
      ''            CASE \<newline>'',
      ''                WHEN i.Quantity = 0 THEN 'OUT_OF_STOCK'\<newline>'',
      ''                WHEN i.Quantity <= i.Reorder_Level * 0.3 THEN 'CRITICAL'\<newline>'',
      ''                WHEN i.Quantity <= i.Reorder_Level * 0.6 THEN 'LOW'\<newline>'',
      ''                WHEN i.Quantity <= i.Reorder_Level THEN 'MODERATE'\<newline>'',
      ''                ELSE 'ADEQUATE'\<newline>'',
      ''            END AS Stock_Status,\<newline>'',
      ''            CASE \<newline>'',
      ''                WHEN i.Quantity <= i.Reorder_Level THEN 'REORDER_NOW'\<newline>'',
      ''                WHEN i.Quantity <= i.Reorder_Level * 1.5 THEN 'MONITOR'\<newline>'',
      ''                ELSE 'SUFFICIENT'\<newline>'',
      ''            END AS Action_Required\<newline>'',
      ''        FROM Product p\<newline>'',
      ''        JOIN Inventory i ON p.Product_ID = i.Product_ID\<newline>'',
      ''        ORDER BY \<newline>'',
      ''            CASE \<newline>'',
      ''                WHEN i.Quantity = 0 THEN 1\<newline>'',
      ''                WHEN i.Quantity <= i.Reorder_Level * 0.3 THEN 2\<newline>'',
      ''                WHEN i.Quantity <= i.Reorder_Level * 0.6 THEN 3\<newline>'',
      ''                WHEN i.Quantity <= i.Reorder_Level THEN 4\<newline>'',
      ''                ELSE 5\<newline>'',
      ''            END,\<newline>'',
      ''            Total_Value DESC\<newline>'',
      ''        '']"

definition regional_performance_query :: string where
  "regional_performance_query = concat
     [''\<newline>'',
      ''        SELECT \<newline>'',
      ''            r.Name AS Region_Name,\<newline>'',
      ''            COUNT(DISTINCT sr.Representative_ID) AS Total_Representatives,\<newline>'',
      ''            COUNT(DISTINCT o.Order_ID) AS Total_Orders,\<newline>'',
      ''            SUM(o.Total_cost) AS Total_Revenue,\<newline>'',
      ''            AVG(o.Total_cost) AS Average_Order_Value,\<newline>'',
      ''            COUNT(DISTINCT i.Customer_ID) AS Unique_Customers,\<newline>'',
      ''            SUM(o.Total_cost) / COUNT(DISTINCT sr.Representative_ID) AS Revenue_Per_Rep,\<newline>'',
      ''            COUNT(DISTINCT o.Order_ID) / COUNT(DISTINCT sr.Representative_ID) AS Orders_Per_Rep\<newline>'',
      ''        FROM Region r\<newline>'',
      ''        LEFT JOIN Sales_Representative sr ON r.Region_ID = sr.Region_ID\<newline>'',
      ''        LEFT JOIN Orders o ON sr.Representative_ID = o.Representative_ID\<newline>'',
      ''        LEFT JOIN Interaction i ON sr.Representative_ID = i.Representative_ID\<newline>'',
      ''        WHERE o.Order_Status != 'Cancelled' OR o.Order_Status IS NULL\<newline>'',
      ''        GROUP BY r.Region_ID, r.Name\<newline>'',
      ''        HAVING Total_Representatives > 0\<newline>'',
      ''        ORDER BY Total_Revenue DESC\<newline>'',
      ''        '']"

definition customer_segments_query :: string where
  "customer_segments_query = concat
     [''\<newline>'',
      ''        SELECT \<newline>'',
      ''            CASE \<newline>'',
      ''                WHEN d.Customer_ID IS NOT NULL THEN 'Doctor'\<newline>'',
      ''                WHEN h.Customer_ID IS NOT NULL THEN 'Hospital'\<newline>'',
      ''                WHEN ph.Customer_ID IS NOT NULL THEN 'Pharmacy'\<newline>'',
      ''                ELSE 'Other'\<newline>'',
      ''            END AS Customer_Type,\<newline>'',
      ''            COUNT(DISTINCT c.Customer_ID) AS Customer_Count,\<newline>'',
      ''            COUNT(DISTINCT op.Order_ID) AS Total_Orders,\<newline>'',
      ''            SUM(o.Total_cost) AS Total_Revenue,\<newline>'',
      ''            AVG(o.Total_cost) AS Average_Order_Value,\<newline>'',
      ''            SUM(o.Total_cost) / COUNT(DISTINCT c.Customer_ID) AS Revenue_Per_Customer\<newline>'',
      ''        FROM Customer c\<newline>'',
      ''        LEFT JOIN Doctors d ON c.Customer_ID = d.Customer_ID\<newline>'',
      ''        LEFT JOIN Hospital h ON c.Customer_ID = h.Customer_ID\<newline>'',
      ''        LEFT JOIN Pharmacy ph ON c.Customer_ID = ph.Customer_ID\<newline>'',
      ''        LEFT JOIN Order_Placed op ON c.Customer_ID = op.Customer_ID\<newline>'',
      ''        LEFT JOIN Orders o ON op.Order_ID = o.Order_ID AND o.Order_Status != 'Cancelled'\<newline>'',
      ''        GROUP BY Customer_Type\<newline>'',
      ''        ORDER BY Total_Revenue DESC\<newline>'',
      ''        '']"

definition product_performance_query :: string where
  "product_performance_query = concat
     [''\<newline>'',
      ''        SELECT \<newline>'',
      ''            p.Name AS Product_Name,\<newline>'',
      ''            p.Category,\<newline>'',
      ''            p.Price AS Unit_Price,\<newline>'',
      ''            COUNT(DISTINCT inv.Order_ID) AS Times_Ordered,\<newline>'',
      ''            SUM(inv.Quantity_Ordered) AS Total_Quantity_Sold,\<newline>'',
      ''            SUM(inv.Line_Total) AS Total_Revenue,\<newline>'',
      ''            AVG(inv.Quantity_Ordered) AS Avg_Quantity_Per_Order,\<newline>'',
      ''            i.Quantity AS Current_Stock,\<newline>'',
      ''            CASE \<newline>'',
      ''                WHEN i.Quantity > 0 AND SUM(inv.Quantity_Ordered) > 0 \<newline>'',
      ''                THEN ROUND(SUM(inv.Quantity_Ordered) / i.Quantity, 2)\<newline>'',
      ''                ELSE 0\<newline>'',
      ''            END AS Turnover_Ratio\<newline>'',
      ''        FROM Product p\<newline>'',
      ''        LEFT JOIN Involvement inv ON p.Product_ID = inv.Product_ID\<newline>'',
      ''        LEFT JOIN Orders o ON inv.Order_ID = o.Order_ID AND o.Order_Status != 'Cancelled'\<newline>'',
      ''        LEFT JOIN Inventory i ON p.Product_ID = i.Product_ID\<newline>'',
      ''        GROUP BY p.Product_ID, p.Name, p.Category, p.Price, i.Quantity\<newline>'',
      ''        ORDER BY Total_Revenue DESC\<newline>'',
      ''        '']"

text \<open>
  The pattern of each entry of the summary:
  \<^verbatim>\<open>conv(result.iloc[0][col]) if not result.empty else 0\<close>.
\<close>

definition summary_value ::
  "dataframe \<Rightarrow> string \<Rightarrow> (cell \<Rightarrow> py_error + pynum) \<Rightarrow> py_error + pynum" where
  "summary_value result col conv =
     (if \<not> df_empty result then bindE (iloc0 result col) conv else Inr (PyInt 0))"

definition as_int :: "pyrt \<Rightarrow> cell \<Rightarrow> py_error + pynum" where
  "as_int rt c = bindE (py_int rt c) (\<lambda>n. Inr (PyInt n))"

text \<open>\<^verbatim>\<open>x > 0\<close> on a number.\<close>

definition py_positive :: "pynum \<Rightarrow> bool" where
  "py_positive x = (case x of PyInt n \<Rightarrow> 0 < n | PyFloat q \<Rightarrow> 0 < q | PyNaN \<Rightarrow> False)"

text \<open>\<^verbatim>\<open>a / b\<close> on two numbers: a zero divisor raises, nan spreads.\<close>

definition num_val :: "pynum \<Rightarrow> rat option" where
  "num_val x = (case x of PyInt n \<Rightarrow> Some (of_int n) | PyFloat q \<Rightarrow> Some q | PyNaN \<Rightarrow> None)"

definition truediv :: "pynum \<Rightarrow> pynum \<Rightarrow> py_error + pynum" where
  "truediv a b =
     (case num_val b of
        None \<Rightarrow> Inr PyNaN
      | Some d \<Rightarrow>
          if d = 0 then Inl ZeroDivisionError
          else (case num_val a of None \<Rightarrow> Inr PyNaN | Some x \<Rightarrow> Inr (PyFloat (x / d))))"

definition get_executive_summary :: "pyrt \<Rightarrow> session \<Rightarrow> py_error + (string \<rightharpoonup> pynum)" where
  "get_executive_summary rt s =
     bindE (execute_query s revenue_query None) (\<lambda>revenue_result.
     bindE (summary_value revenue_result ''total_revenue'' (py_float rt)) (\<lambda>total_revenue.
     bindE (execute_query s orders_query None) (\<lambda>orders_result.
     bindE (summary_value orders_result ''total_orders'' (as_int rt)) (\<lambda>total_orders.
     bindE (execute_query s reps_query None) (\<lambda>reps_result.
     bindE (summary_value reps_result ''active_reps'' (as_int rt)) (\<lambda>active_reps.
     bindE (execute_query s inventory_query None) (\<lambda>inventory_result.
     bindE (summary_value inventory_result ''inventory_value'' (py_float rt)) (\<lambda>inventory_value.
     let summary = [''total_revenue'' \<mapsto> total_revenue, ''total_orders'' \<mapsto> total_orders,
                    ''active_representatives'' \<mapsto> active_reps,
                    ''inventory_value'' \<mapsto> inventory_value]
     in bindE (dict_get summary ''total_orders'') (\<lambda>n.
        if py_positive n
        then bindE (dict_get summary ''total_revenue'') (\<lambda>r.
             bindE (truediv r n) (\<lambda>a. Inr (summary(''average_order_value'' \<mapsto> a))))
        else Inr (summary(''average_order_value'' \<mapsto> PyInt 0)))))))))))"

definition analyze_sales_performance :: "session \<Rightarrow> py_error + dataframe" where
  "analyze_sales_performance s = execute_query s sales_performance_query None"

definition analyze_inventory_status :: "session \<Rightarrow> py_error + dataframe" where
  "analyze_inventory_status s = execute_query s inventory_status_query None"

definition analyze_regional_performance :: "session \<Rightarrow> py_error + dataframe" where
  "analyze_regional_performance s = execute_query s regional_performance_query None"

definition analyze_customer_segments :: "session \<Rightarrow> py_error + dataframe" where
  "analyze_customer_segments s = execute_query s customer_segments_query None"

definition analyze_product_performance :: "session \<Rightarrow> py_error + dataframe" where
  "analyze_product_performance s = execute_query s product_performance_query None"

section \<open>The report\<close>

text \<open>Cells inside an f-string: \<^verbatim>\<open>{x}\<close> and \<^verbatim>\<open>{x:,.2f}\<close>.\<close>

definition cell_str :: "pyrt \<Rightarrow> cell \<Rightarrow> string" where
  "cell_str rt c =
     (case c of
        PyNone \<Rightarrow> ''None''
      | NaN \<Rightarrow> str_num rt PyNaN
      | IntV n \<Rightarrow> str_num rt (PyInt n)
      | NumV q \<Rightarrow> str_num rt (PyFloat q)
      | StrV s \<Rightarrow> s
      | DateV d \<Rightarrow> str_date rt d)"

definition cell_money :: "pyrt \<Rightarrow> cell \<Rightarrow> py_error + string" where
  "cell_money rt c =
     (case c of
        PyNone \<Rightarrow> Inl TypeError
      | NaN \<Rightarrow> Inr (fmt_money rt PyNaN)
      | IntV n \<Rightarrow> Inr (fmt_money rt (PyInt n))
      | NumV q \<Rightarrow> Inr (fmt_money rt (PyFloat q))
      | StrV s \<Rightarrow> Inl ValueError
      | DateV d \<Rightarrow> Inr '',.2f'')"

fun mapE :: "('a \<Rightarrow> 'e + 'b) \<Rightarrow> 'a list \<Rightarrow> 'e + 'b list" where
  "mapE f [] = Inr []"
| "mapE f (x # xs) = bindE (f x) (\<lambda>y. bindE (mapE f xs) (\<lambda>ys. Inr (y # ys)))"

text \<open>\<^verbatim>\<open>"\n".join(report)\<close>.\<close>

fun join_lines :: "string list \<Rightarrow> string" where
  "join_lines [] = []"
| "join_lines [l] = l"
| "join_lines (l # ls) = l @ CHR 0x0A # join_lines ls"

definition report_header :: "string \<Rightarrow> string list" where
  "report_header now =
     [replicate 80 CHR ''='', ''PHARMACEUTICAL SUPPLY CHAIN ANALYTICS REPORT'',
      replicate 80 CHR ''='', ''Generated: '' @ now, '''']"

definition summary_section :: "pyrt \<Rightarrow> session \<Rightarrow> py_error + string list" where
  "summary_section rt s =
     bindE (get_executive_summary rt s) (\<lambda>summary.
     bindE (dict_get summary ''total_revenue'') (\<lambda>total_revenue.
     bindE (dict_get summary ''total_orders'') (\<lambda>total_orders.
     bindE (dict_get summary ''active_representatives'') (\<lambda>active_representatives.
     bindE (dict_get summary ''average_order_value'') (\<lambda>average_order_value.
     bindE (dict_get summary ''inventory_value'') (\<lambda>inventory_value.
     Inr [''EXECUTIVE SUMMARY'', replicate 50 CHR ''-'',
          ''Total Revenue: $'' @ fmt_money rt total_revenue,
          ''Total Orders: '' @ fmt_group rt total_orders,
          ''Active Representatives: '' @ str_num rt active_representatives,
          ''Average Order Value: $'' @ fmt_money rt average_order_value,
          ''Total Inventory Value: $'' @ fmt_money rt inventory_value,
          '''']))))))"

definition sales_line :: "pyrt \<Rightarrow> string list \<Rightarrow> cell list \<Rightarrow> py_error + string" where
  "sales_line rt cols row =
     bindE (row_get cols row ''Representative_Name'') (\<lambda>name.
     bindE (row_get cols row ''Region_Name'') (\<lambda>region.
     bindE (row_get cols row ''Total_Sales'') (\<lambda>sales.
     bindE (cell_money rt sales) (\<lambda>money.
     Inr (cell_str rt name @ '' ('' @ cell_str rt region @ ''): $'' @ money)))))"

definition sales_section :: "pyrt \<Rightarrow> session \<Rightarrow> py_error + string list" where
  "sales_section rt s =
     bindE (analyze_sales_performance s) (\<lambda>sales_data.
     if \<not> df_empty sales_data
     then bindE (mapE (sales_line rt (columns sales_data)) (rows (head 5 sales_data))) (\<lambda>ls.
          Inr ([''TOP SALES PERFORMERS'', replicate 50 CHR ''-''] @ ls @ ['''']))
     else Inr [])"

text \<open>
  \<^verbatim>\<open>inventory_data[inventory_data['Stock_Status'].isin(['CRITICAL', 'OUT_OF_STOCK'])]\<close>:
  the column is read first, then the rows are kept whose cell is one of the two texts.
\<close>

definition critical_items :: "dataframe \<Rightarrow> py_error + dataframe" where
  "critical_items inventory_data =
     bindE (df_column inventory_data ''Stock_Status'') (\<lambda>status.
     Inr (inventory_data\<lparr>rows :=
            map fst (filter (\<lambda>(r, c). c = StrV ''CRITICAL'' \<or> c = StrV ''OUT_OF_STOCK'')
                            (zip (rows inventory_data) status))\<rparr>))"

definition alert_line :: "pyrt \<Rightarrow> string list \<Rightarrow> cell list \<Rightarrow> py_error + string" where
  "alert_line rt cols row =
     bindE (row_get cols row ''Product_Name'') (\<lambda>name.
     bindE (row_get cols row ''Current_Stock'') (\<lambda>stock.
     bindE (row_get cols row ''Stock_Status'') (\<lambda>status.
     Inr (cell_str rt name @ '': '' @ cell_str rt stock @ '' units ('' @ cell_str rt status @ '')''))))"

definition inventory_alerts :: "pyrt \<Rightarrow> session \<Rightarrow> py_error + string list" where
  "inventory_alerts rt s =
     bindE (analyze_inventory_status s) (\<lambda>inventory_data.
     bindE (critical_items inventory_data) (\<lambda>items.
     if \<not> df_empty items
     then bindE (mapE (alert_line rt (columns items)) (rows items)) (\<lambda>ls.
          Inr ([''CRITICAL INVENTORY ALERTS'', replicate 50 CHR ''-''] @ ls @ ['''']))
     else Inr []))"

definition regional_line :: "pyrt \<Rightarrow> string list \<Rightarrow> cell list \<Rightarrow> py_error + string" where
  "regional_line rt cols row =
     bindE (row_get cols row ''Region_Name'') (\<lambda>name.
     bindE (row_get cols row ''Total_Revenue'') (\<lambda>revenue.
     bindE (cell_money rt revenue) (\<lambda>money.
     bindE (row_get cols row ''Total_Orders'') (\<lambda>orders.
     Inr (cell_str rt name @ '': $'' @ money @ '' revenue, '' @ cell_str rt orders @ '' orders'')))))"

definition regional_section :: "pyrt \<Rightarrow> session \<Rightarrow> py_error + string list" where
  "regional_section rt s =
     bindE (analyze_regional_performance s) (\<lambda>regional_data.
     if \<not> df_empty regional_data
     then bindE (mapE (regional_line rt (columns regional_data)) (rows (head 3 regional_data))) (\<lambda>ls.
          Inr ([''REGIONAL PERFORMANCE SUMMARY'', replicate 50 CHR ''-''] @ ls @ ['''']))
     else Inr [])"

text \<open>
  \<^verbatim>\<open>generate_detailed_report\<close>: the blocks in the order of the method; \<open>now\<close> is the
  formatted time stamp.
\<close>

definition generate_detailed_report :: "pyrt \<Rightarrow> string \<Rightarrow> session \<Rightarrow> py_error + string" where
  "generate_detailed_report rt now s =
     bindE (summary_section rt s) (\<lambda>summary_lines.
     bindE (sales_section rt s) (\<lambda>sales_lines.
     bindE (inventory_alerts rt s) (\<lambda>alert_lines.
     bindE (regional_section rt s) (\<lambda>regional_lines.
     Inr (join_lines (report_header now @ summary_lines @ sales_lines @ alert_lines
                      @ regional_lines @ [replicate 80 CHR ''='']))))))"

section \<open>The database engine on the query catalogue\<close>

text \<open>
  What MySQL answers to the nine query texts above, as functions of the tables. The
  schema is the one the queries read; base columns are taken NOT NULL, so NULL arises
  from an outer join and from an aggregate over no value. Text is compared as written
  (the status of a cancelled order is the text \<open>Cancelled\<close>). Where MySQL leaves
  the order of tied rows open, the model keeps one order.
\<close>

record order_row =
  o_Order_ID :: int
  o_Representative_ID :: int
  o_Total_cost :: rat
  o_Order_Status :: string
  o_Date :: int

record representative_row =
  sr_Representative_ID :: int
  sr_Name :: string
  sr_Region_ID :: int
  sr_Performance_Rating :: rat

record region_row =
  r_Region_ID :: int
  r_Name :: string

record interaction_row =
  ia_Representative_ID :: int
  ia_Customer_ID :: int

record product_row =
  p_Product_ID :: int
  p_Name :: string
  p_Category :: string
  p_Price :: rat

record inventory_row =
  i_Product_ID :: int
  i_Quantity :: int
  i_Reorder_Level :: int
  i_Location :: string

record involvement_row =
  inv_Product_ID :: int
  inv_Order_ID :: int
  inv_Quantity_Ordered :: int
  inv_Line_Total :: rat

record order_placed_row =
  op_Customer_ID :: int
  op_Order_ID :: int

record database =
  Orders :: "order_row list"
  Sales_Representative :: "representative_row list"
  Region :: "region_row list"
  Interaction :: "interaction_row list"
  Product :: "product_row list"
  Inventory :: "inventory_row list"
  Involvement :: "involvement_row list"
  Customer :: "int list"
  Doctors :: "int list"
  Hospital :: "int list"
  Pharmacy :: "int list"
  Order_Placed :: "order_placed_row list"
  CURDATE :: int

datatype sqlval = SqlNull | SqlInt int | SqlDec rat | SqlStr string | SqlDate int

definition opt_dec :: "rat option \<Rightarrow> sqlval" where
  "opt_dec v = (case v of None \<Rightarrow> SqlNull | Some q \<Rightarrow> SqlDec q)"

definition opt_int :: "int option \<Rightarrow> sqlval" where
  "opt_int v = (case v of None \<Rightarrow> SqlNull | Some n \<Rightarrow> SqlInt n)"

definition opt_date :: "int option \<Rightarrow> sqlval" where
  "opt_date v = (case v of None \<Rightarrow> SqlNull | Some d \<Rightarrow> SqlDate d)"

subsection \<open>Joins, grouping, aggregates, ordering\<close>

definition inner_join :: "'a list \<Rightarrow> 'b list \<Rightarrow> ('a \<Rightarrow> 'b \<Rightarrow> bool) \<Rightarrow> ('a \<times> 'b) list" where
  "inner_join xs ys on = concat (map (\<lambda>x. map (Pair x) (filter (on x) ys)) xs)"

text \<open>A left row with no partner is kept once, with NULL for the right side.\<close>

definition left_join :: "'a list \<Rightarrow> 'b list \<Rightarrow> ('a \<Rightarrow> 'b \<Rightarrow> bool) \<Rightarrow> ('a \<times> 'b option) list" where
  "left_join xs ys on =
     concat (map (\<lambda>x. case filter (on x) ys of [] \<Rightarrow> [(x, None)] | m # ms \<Rightarrow> map (\<lambda>y. (x, Some y)) (m # ms)) xs)"

definition group_by :: "('a \<Rightarrow> 'k) \<Rightarrow> 'a list \<Rightarrow> ('k \<times> 'a list) list" where
  "group_by key xs = map (\<lambda>k. (k, filter (\<lambda>x. key x = k) xs)) (remdups (map key xs))"

text \<open>The values of an aggregate's argument that are not NULL.\<close>

definition non_null :: "'a option list \<Rightarrow> 'a list" where
  "non_null vs = concat (map (\<lambda>v. case v of None \<Rightarrow> [] | Some x \<Rightarrow> [x]) vs)"

definition sql_sum :: "rat option list \<Rightarrow> rat option" where
  "sql_sum vs = (case non_null vs of [] \<Rightarrow> None | x # xs \<Rightarrow> Some (sum_list (x # xs)))"

definition sql_avg :: "rat option list \<Rightarrow> rat option" where
  "sql_avg vs =
     (case non_null vs of [] \<Rightarrow> None | x # xs \<Rightarrow> Some (sum_list (x # xs) / of_nat (length (x # xs))))"

definition sql_max :: "int option list \<Rightarrow> int option" where
  "sql_max vs = (case non_null vs of [] \<Rightarrow> None | x # xs \<Rightarrow> Some (fold max xs x))"

definition count_distinct :: "'a option list \<Rightarrow> int" where
  "count_distinct vs = int (length (remdups (non_null vs)))"

text \<open>\<^verbatim>\<open>a / b\<close> in SQL: NULL when an operand is NULL or the divisor is zero.\<close>

definition sql_div :: "rat option \<Rightarrow> rat option \<Rightarrow> rat option" where
  "sql_div a b =
     (case (a, b) of (Some x, Some y) \<Rightarrow> if y = 0 then None else Some (x / y) | _ \<Rightarrow> None)"

text \<open>\<^verbatim>\<open>ORDER BY key DESC\<close>: NULL is the least value, so it comes last.\<close>

fun insert_desc :: "('a \<Rightarrow> 'k::linorder) \<Rightarrow> 'a \<Rightarrow> 'a list \<Rightarrow> 'a list" where
  "insert_desc key x [] = [x]"
| "insert_desc key x (y # ys) =
     (if key y < key x then x # y # ys else y # insert_desc key x ys)"

definition order_by_desc :: "('a \<Rightarrow> 'k::linorder) \<Rightarrow> 'a list \<Rightarrow> 'a list" where
  "order_by_desc key xs = foldr (insert_desc key) xs []"

subsection \<open>The executive summary's four queries\<close>

definition not_cancelled :: "order_row \<Rightarrow> bool" where
  "not_cancelled o' = (o_Order_Status o' \<noteq> ''Cancelled'')"

definition revenue_result :: "database \<Rightarrow> string list \<times> sqlval list list" where
  "revenue_result db =
     ([''total_revenue''],
      [[opt_dec (sql_sum (map (\<lambda>o'. Some (o_Total_cost o')) (filter not_cancelled (Orders db))))]])"

definition orders_result :: "database \<Rightarrow> string list \<times> sqlval list list" where
  "orders_result db =
     ([''total_orders''], [[SqlInt (int (length (filter not_cancelled (Orders db))))]])"

definition reps_result :: "database \<Rightarrow> string list \<times> sqlval list list" where
  "reps_result db =
     ([''active_reps''],
      [[SqlInt (count_distinct (map (\<lambda>sr. Some (sr_Representative_ID sr)) (Sales_Representative db)))]])"

definition product_inventory :: "database \<Rightarrow> (product_row \<times> inventory_row) list" where
  "product_inventory db =
     inner_join (Product db) (Inventory db) (\<lambda>p i. p_Product_ID p = i_Product_ID i)"

definition inventory_result :: "database \<Rightarrow> string list \<times> sqlval list list" where
  "inventory_result db =
     ([''inventory_value''],
      [[opt_dec (sql_sum (map (\<lambda>(p, i). Some (p_Price p * of_int (i_Quantity i)))
                             (product_inventory db)))]])"

subsection \<open>Sales performance\<close>

type_synonym sales_join = "((representative_row \<times> region_row) \<times> order_row option) \<times> interaction_row option"

definition sales_from :: "database \<Rightarrow> sales_join list" where
  "sales_from db =
     filter (\<lambda>(((sr, r), o'), i). case o' of None \<Rightarrow> True | Some x \<Rightarrow> not_cancelled x)
       (left_join
          (left_join
             (inner_join (Sales_Representative db) (Region db) (\<lambda>sr r. sr_Region_ID sr = r_Region_ID r))
             (Orders db) (\<lambda>(sr, r) o'. sr_Representative_ID sr = o_Representative_ID o'))
          (Interaction db) (\<lambda>((sr, r), o') i. sr_Representative_ID sr = ia_Representative_ID i))"

definition sales_groups :: "database \<Rightarrow> ((int \<times> string \<times> string \<times> rat) \<times> sales_join list) list" where
  "sales_groups db =
     group_by (\<lambda>(((sr, r), o'), i). (sr_Representative_ID sr, sr_Name sr, r_Name r, sr_Performance_Rating sr))
       (sales_from db)"

definition sales_total :: "sales_join list \<Rightarrow> rat option" where
  "sales_total g = sql_sum (map (\<lambda>(((sr, r), o'), i). map_option o_Total_cost o') g)"

definition sales_select :: "int \<Rightarrow> (int \<times> string \<times> string \<times> rat) \<times> sales_join list \<Rightarrow> sqlval list" where
  "sales_select today kg =
     (case kg of ((rep_id, name, region, rating), g) \<Rightarrow>
        [SqlStr name, SqlStr region, SqlDec rating,
         SqlInt (count_distinct (map (\<lambda>(((sr, r), o'), i). map_option o_Order_ID o') g)),
         opt_dec (sales_total g),
         opt_dec (sql_avg (map (\<lambda>(((sr, r), o'), i). map_option o_Total_cost o') g)),
         SqlInt (count_distinct (map (\<lambda>(((sr, r), o'), i). map_option ia_Customer_ID i) g)),
         opt_date (sql_max (map (\<lambda>(((sr, r), o'), i). map_option o_Date o') g)),
         opt_int (map_option (\<lambda>d. today - d) (sql_max (map (\<lambda>(((sr, r), o'), i). map_option o_Date o') g)))])"

definition sales_performance_result :: "database \<Rightarrow> string list \<times> sqlval list list" where
  "sales_performance_result db =
     ([''Representative_Name'', ''Region_Name'', ''Performance_Rating'', ''Total_Orders'',
       ''Total_Sales'', ''Average_Order_Value'', ''Unique_Customers'', ''Last_Order_Date'',
       ''Days_Since_Last_Order''],
      map (sales_select (CURDATE db)) (order_by_desc (\<lambda>kg. sales_total (snd kg)) (sales_groups db)))"

subsection \<open>Inventory status\<close>

text \<open>The two CASE expressions of the select list and the one of ORDER BY. The
  literals 0.3, 0.6 and 1.5 are exact decimals.\<close>

definition stock_status :: "int \<Rightarrow> int \<Rightarrow> string" where
  "stock_status quantity reorder_level =
     (if quantity = 0 then ''OUT_OF_STOCK''
      else if (of_int quantity :: rat) \<le> of_int reorder_level * (3 / 10) then ''CRITICAL''
      else if (of_int quantity :: rat) \<le> of_int reorder_level * (6 / 10) then ''LOW''
      else if quantity \<le> reorder_level then ''MODERATE''
      else ''ADEQUATE'')"

definition action_required :: "int \<Rightarrow> int \<Rightarrow> string" where
  "action_required quantity reorder_level =
     (if quantity \<le> reorder_level then ''REORDER_NOW''
      else if (of_int quantity :: rat) \<le> of_int reorder_level * (15 / 10) then ''MONITOR''
      else ''SUFFICIENT'')"

definition severity :: "int \<Rightarrow> int \<Rightarrow> nat" where
  "severity quantity reorder_level =
     (if quantity = 0 then 1
      else if (of_int quantity :: rat) \<le> of_int reorder_level * (3 / 10) then 2
      else if (of_int quantity :: rat) \<le> of_int reorder_level * (6 / 10) then 3
      else if quantity \<le> reorder_level then 4
      else 5)"

definition inventory_select :: "product_row \<times> inventory_row \<Rightarrow> sqlval list" where
  "inventory_select row =
     (case row of (p, i) \<Rightarrow>
        [SqlStr (p_Name p), SqlStr (p_Category p), SqlDec (p_Price p), SqlInt (i_Quantity i),
         SqlInt (i_Reorder_Level i), SqlDec (p_Price p * of_int (i_Quantity i)),
         SqlStr (i_Location i), SqlStr (stock_status (i_Quantity i) (i_Reorder_Level i)),
         SqlStr (action_required (i_Quantity i) (i_Reorder_Level i))])"

definition inventory_order :: "product_row \<times> inventory_row \<Rightarrow> nat \<times> rat" where
  "inventory_order row =
     (case row of (p, i) \<Rightarrow>
        (severity (i_Quantity i) (i_Reorder_Level i), - (p_Price p * of_int (i_Quantity i))))"

definition inventory_status_result :: "database \<Rightarrow> string list \<times> sqlval list list" where
  "inventory_status_result db =
     ([''Product_Name'', ''Category'', ''Price'', ''Current_Stock'', ''Reorder_Level'',
       ''Total_Value'', ''Location'', ''Stock_Status'', ''Action_Required''],
      map inventory_select (sort_key inventory_order (product_inventory db)))"

subsection \<open>Regional performance\<close>

text \<open>Quotients and averages are exact; the scale MySQL rounds them to depends on the
  column declarations.\<close>

type_synonym regional_join =
  "((region_row \<times> representative_row option) \<times> order_row option) \<times> interaction_row option"

definition regional_from :: "database \<Rightarrow> regional_join list" where
  "regional_from db =
     filter (\<lambda>(((r, sr), o'), i). case o' of None \<Rightarrow> True | Some x \<Rightarrow> not_cancelled x)
       (left_join
          (left_join
             (left_join (Region db) (Sales_Representative db) (\<lambda>r sr. r_Region_ID r = sr_Region_ID sr))
             (Orders db)
             (\<lambda>(r, sr) o'. case sr of None \<Rightarrow> False
                             | Some x \<Rightarrow> sr_Representative_ID x = o_Representative_ID o'))
          (Interaction db)
          (\<lambda>((r, sr), o') i. case sr of None \<Rightarrow> False
                                | Some x \<Rightarrow> sr_Representative_ID x = ia_Representative_ID i))"

definition regional_revenue :: "regional_join list \<Rightarrow> rat option" where
  "regional_revenue g = sql_sum (map (\<lambda>(((r, sr), o'), i). map_option o_Total_cost o') g)"

definition regional_reps :: "regional_join list \<Rightarrow> int" where
  "regional_reps g = count_distinct (map (\<lambda>(((r, sr), o'), i). map_option sr_Representative_ID sr) g)"

definition regional_orders :: "regional_join list \<Rightarrow> int" where
  "regional_orders g = count_distinct (map (\<lambda>(((r, sr), o'), i). map_option o_Order_ID o') g)"

definition regional_select :: "(int \<times> string) \<times> regional_join list \<Rightarrow> sqlval list" where
  "regional_select kg =
     (case kg of ((region_id, name), g) \<Rightarrow>
        [SqlStr name, SqlInt (regional_reps g), SqlInt (regional_orders g),
         opt_dec (regional_revenue g),
         opt_dec (sql_avg (map (\<lambda>(((r, sr), o'), i). map_option o_Total_cost o') g)),
         SqlInt (count_distinct (map (\<lambda>(((r, sr), o'), i). map_option ia_Customer_ID i) g)),
         opt_dec (sql_div (regional_revenue g) (Some (of_int (regional_reps g)))),
         opt_dec (sql_div (Some (of_int (regional_orders g))) (Some (of_int (regional_reps g))))])"

definition regional_performance_result :: "database \<Rightarrow> string list \<times> sqlval list list" where
  "regional_performance_result db =
     ([''Region_Name'', ''Total_Representatives'', ''Total_Orders'', ''Total_Revenue'',
       ''Average_Order_Value'', ''Unique_Customers'', ''Revenue_Per_Rep'', ''Orders_Per_Rep''],
      map regional_select
        (order_by_desc (\<lambda>kg. regional_revenue (snd kg))
           (filter (\<lambda>kg. 0 < regional_reps (snd kg))
              (group_by (\<lambda>(((r, sr), o'), i). (r_Region_ID r, r_Name r)) (regional_from db)))))"

subsection \<open>Customer segments\<close>

type_synonym customer_join =
  "((((int \<times> int option) \<times> int option) \<times> int option) \<times> order_placed_row option) \<times> order_row option"

definition customer_from :: "database \<Rightarrow> customer_join list" where
  "customer_from db =
     left_join
       (left_join
          (left_join
             (left_join
                (left_join (Customer db) (Doctors db) (\<lambda>c d. c = d))
                (Hospital db) (\<lambda>(c, d) h. c = h))
             (Pharmacy db) (\<lambda>((c, d), h) ph. c = ph))
          (Order_Placed db) (\<lambda>(((c, d), h), ph) op. c = op_Customer_ID op))
       (Orders db)
       (\<lambda>((((c, d), h), ph), op) o'.
          case op of None \<Rightarrow> False | Some x \<Rightarrow> op_Order_ID x = o_Order_ID o' \<and> not_cancelled o')"

definition customer_type :: "customer_join \<Rightarrow> string" where
  "customer_type j =
     (case j of (((((c, d), h), ph), op), o') \<Rightarrow>
        if d \<noteq> None then ''Doctor''
        else if h \<noteq> None then ''Hospital''
        else if ph \<noteq> None then ''Pharmacy''
        else ''Other'')"

definition customer_revenue :: "customer_join list \<Rightarrow> rat option" where
  "customer_revenue g = sql_sum (map (\<lambda>(j, o'). map_option o_Total_cost o') g)"

definition customer_count :: "customer_join list \<Rightarrow> int" where
  "customer_count g = count_distinct (map (\<lambda>(((((c, d), h), ph), op), o'). Some c) g)"

definition customer_select :: "string \<times> customer_join list \<Rightarrow> sqlval list" where
  "customer_select kg =
     (case kg of (ctype, g) \<Rightarrow>
        [SqlStr ctype, SqlInt (customer_count g),
         SqlInt (count_distinct (map (\<lambda>((j, op), o'). map_option op_Order_ID op) g)),
         opt_dec (customer_revenue g),
         opt_dec (sql_avg (map (\<lambda>(j, o'). map_option o_Total_cost o') g)),
         opt_dec (sql_div (customer_revenue g) (Some (of_int (customer_count g))))])"

definition customer_segments_result :: "database \<Rightarrow> string list \<times> sqlval list list" where
  "customer_segments_result db =
     ([''Customer_Type'', ''Customer_Count'', ''Total_Orders'', ''Total_Revenue'',
       ''Average_Order_Value'', ''Revenue_Per_Customer''],
      map customer_select
        (order_by_desc (\<lambda>kg. customer_revenue (snd kg)) (group_by customer_type (customer_from db))))"

subsection \<open>Product performance\<close>

type_synonym product_join =
  "((product_row \<times> involvement_row option) \<times> order_row option) \<times> inventory_row option"

definition product_from :: "database \<Rightarrow> product_join list" where
  "product_from db =
     left_join
       (left_join
          (left_join (Product db) (Involvement db) (\<lambda>p inv. p_Product_ID p = inv_Product_ID inv))
          (Orders db)
          (\<lambda>(p, inv) o'. case inv of None \<Rightarrow> False
                           | Some x \<Rightarrow> inv_Order_ID x = o_Order_ID o' \<and> not_cancelled o'))
       (Inventory db) (\<lambda>((p, inv), o') i. p_Product_ID p = i_Product_ID i)"

definition product_revenue :: "product_join list \<Rightarrow> rat option" where
  "product_revenue g = sql_sum (map (\<lambda>(((p, inv), o'), i). map_option inv_Line_Total inv) g)"

definition quantity_sold :: "product_join list \<Rightarrow> rat option" where
  "quantity_sold g =
     sql_sum (map (\<lambda>(((p, inv), o'), i). map_option (\<lambda>x. of_int (inv_Quantity_Ordered x)) inv) g)"

text \<open>\<^verbatim>\<open>ROUND(x, 2)\<close> on an exact value: half away from zero.\<close>

definition round2 :: "rat \<Rightarrow> rat" where
  "round2 x = (if 0 \<le> x then of_int \<lfloor>x * 100 + 1 / 2\<rfloor> / 100 else - (of_int \<lfloor>- x * 100 + 1 / 2\<rfloor> / 100))"

definition turnover_ratio :: "int option \<Rightarrow> rat option \<Rightarrow> sqlval" where
  "turnover_ratio stock sold =
     (case (stock, sold) of
        (Some q, Some n) \<Rightarrow> if 0 < q \<and> 0 < n then SqlDec (round2 (n / of_int q)) else SqlInt 0
      | _ \<Rightarrow> SqlInt 0)"

definition product_select ::
  "(int \<times> string \<times> string \<times> rat \<times> int option) \<times> product_join list \<Rightarrow> sqlval list" where
  "product_select kg =
     (case kg of ((product_id, name, category, price, stock), g) \<Rightarrow>
        [SqlStr name, SqlStr category, SqlDec price,
         SqlInt (count_distinct (map (\<lambda>(((p, inv), o'), i). map_option inv_Order_ID inv) g)),
         opt_dec (quantity_sold g),
         opt_dec (product_revenue g),
         opt_dec (sql_avg (map (\<lambda>(((p, inv), o'), i). map_option (\<lambda>x. of_int (inv_Quantity_Ordered x)) inv) g)),
         opt_int stock,
         turnover_ratio stock (quantity_sold g)])"

definition product_performance_result :: "database \<Rightarrow> string list \<times> sqlval list list" where
  "product_performance_result db =
     ([''Product_Name'', ''Category'', ''Unit_Price'', ''Times_Ordered'', ''Total_Quantity_Sold'',
       ''Total_Revenue'', ''Avg_Quantity_Per_Order'', ''Current_Stock'', ''Turnover_Ratio''],
      map product_select
        (order_by_desc (\<lambda>kg. product_revenue (snd kg))
           (group_by (\<lambda>(((p, inv), o'), i).
                        (p_Product_ID p, p_Name p, p_Category p, p_Price p, map_option i_Quantity i))
              (product_from db))))"

subsection \<open>From the driver's rows to a data frame\<close>

text \<open>
  pandas builds the frame column by column: a column of numbers in which a NULL or a
  decimal stands becomes a float column with NaN for NULL, a column of integers stays
  one, and every other column keeps its values, None for NULL.
\<close>

definition is_num :: "sqlval \<Rightarrow> bool" where
  "is_num v = (case v of SqlInt n \<Rightarrow> True | SqlDec q \<Rightarrow> True | _ \<Rightarrow> False)"

definition is_int :: "sqlval \<Rightarrow> bool" where
  "is_int v = (case v of SqlInt n \<Rightarrow> True | _ \<Rightarrow> False)"

definition plain_cell :: "sqlval \<Rightarrow> cell" where
  "plain_cell v =
     (case v of SqlNull \<Rightarrow> PyNone | SqlInt n \<Rightarrow> IntV n | SqlDec q \<Rightarrow> NumV q
      | SqlStr s \<Rightarrow> StrV s | SqlDate d \<Rightarrow> DateV d)"

definition float_cell :: "sqlval \<Rightarrow> cell" where
  "float_cell v =
     (case v of SqlNull \<Rightarrow> NaN | SqlInt n \<Rightarrow> NumV (of_int n) | SqlDec q \<Rightarrow> NumV q
      | SqlStr s \<Rightarrow> StrV s | SqlDate d \<Rightarrow> DateV d)"

definition pd_cell :: "sqlval list \<Rightarrow> sqlval \<Rightarrow> cell" where
  "pd_cell col v =
     (if list_ex is_num col \<and> list_all (\<lambda>x. is_num x \<or> x = SqlNull) col \<and> \<not> list_all is_int col
      then float_cell v else plain_cell v)"

definition column_values :: "sqlval list list \<Rightarrow> nat \<Rightarrow> sqlval list" where
  "column_values data j = map (\<lambda>r. case drop j r of [] \<Rightarrow> SqlNull | v # _ \<Rightarrow> v) data"

definition from_records :: "string list \<Rightarrow> sqlval list list \<Rightarrow> dataframe" where
  "from_records cols data =
     \<lparr>columns = cols,
      rows = map (\<lambda>r. map (\<lambda>(j, v). pd_cell (column_values data j) v) (zip [0..<length r] r)) data\<rparr>"

subsection \<open>A connection to the engine\<close>

definition catalogue :: "database \<Rightarrow> (string \<times> string list \<times> sqlval list list) list" where
  "catalogue db =
     [(revenue_query, revenue_result db),
      (orders_query, orders_result db),
      (reps_query, reps_result db),
      (inventory_query, inventory_result db),
      (sales_performance_query, sales_performance_result db),
      (inventory_status_query, inventory_status_result db),
      (regional_performance_query, regional_performance_result db),
      (customer_segments_query, customer_segments_result db),
      (product_performance_query, product_performance_result db)]"

text \<open>
  The connection answers the catalogue from the tables; \<open>broken\<close> says for which
  texts the execution fails on the way (a lost link, a time-out). Any other text is
  refused.
\<close>

definition mysql_run ::
  "database \<Rightarrow> (string \<Rightarrow> bool) \<Rightarrow> string \<Rightarrow> cell list option \<Rightarrow> py_error + dataframe" where
  "mysql_run db broken query params =
     (if broken query then Inl DatabaseError
      else (case map_of (catalogue db) query of
              None \<Rightarrow> Inl DatabaseError
            | Some (cols, data) \<Rightarrow> Inr (from_records cols data)))"

definition mysql_session :: "database \<Rightarrow> (string \<Rightarrow> bool) \<Rightarrow> session" where
  "mysql_session db broken =
     \<lparr>connection = Some \<lparr>conn_run = mysql_run db broken, conn_close_raises = False, conn_open = True\<rparr>,
      cursor = Some \<lparr>cursor_close_raises = False, cursor_open = True\<rparr>,
      connected = True\<rparr>"

text \<open>The dictionary with the five keys of the summary, each bound to the int 0.\<close>

definition zero_summary :: "string \<rightharpoonup> pynum" where
  "zero_summary =
     [''total_revenue'' \<mapsto> PyInt 0, ''total_orders'' \<mapsto> PyInt 0,
      ''active_representatives'' \<mapsto> PyInt 0, ''inventory_value'' \<mapsto> PyInt 0,
      ''average_order_value'' \<mapsto> PyInt 0]"

definition summary_keys :: "string set" where
  "summary_keys =
     {''total_revenue'', ''total_orders'', ''active_representatives'', ''inventory_value'',
      ''average_order_value''}"

section \<open>The buckets as the specification words them\<close>

text \<open>
  The specification's thresholds, in whole percents of the reorder level: out of stock
  at 0, critical up to 30 percent, low up to 60 percent, moderate up to 100 percent,
  adequate above. This definition is written from the specification, to be compared
  with \<open>stock_status\<close>, which is written from the query.
\<close>

definition stock_status_spec :: "int \<Rightarrow> int \<Rightarrow> string" where
  "stock_status_spec stock level =
     (if stock = 0 then ''OUT_OF_STOCK''
      else if 100 * stock \<le> 30 * level then ''CRITICAL''
      else if 100 * stock \<le> 60 * level then ''LOW''
      else if 100 * stock \<le> 100 * level then ''MODERATE''
      else ''ADEQUATE'')"

section \<open>Reading a row of the sales frame\<close>

text \<open>
  The number in a cell, and the total sales of a row. A missing value (None or NaN) has
  no number; in the order on optional numbers it is the least value, as NULL is in
  MySQL's ORDER BY.
\<close>

definition cell_num :: "cell \<Rightarrow> rat option" where
  "cell_num c = (case c of IntV n \<Rightarrow> Some (of_int n) | NumV q \<Rightarrow> Some q | _ \<Rightarrow> None)"

definition total_sales :: "string list \<Rightarrow> cell list \<Rightarrow> rat option" where
  "total_sales cols r =
     (case row_get cols r ''Total_Sales'' of Inl e \<Rightarrow> None | Inr c \<Rightarrow> cell_num c)"

section \<open>Example states\<close>

text \<open>A database with no row, and one with a delivered order of 100.00, a cancelled
  order of 500.00 and one product in stock.\<close>

definition no_rows :: database where
  "no_rows = \<lparr>Orders = [], Sales_Representative = [], Region = [], Interaction = [],
     Product = [], Inventory = [], Involvement = [], Customer = [], Doctors = [], Hospital = [],
     Pharmacy = [], Order_Placed = [], CURDATE = 0\<rparr>"

definition two_orders :: database where
  "two_orders = no_rows
     \<lparr>Orders := [\<lparr>o_Order_ID = 1, o_Representative_ID = 7, o_Total_cost = 100,
                    o_Order_Status = ''Delivered'', o_Date = 10\<rparr>,
                  \<lparr>o_Order_ID = 2, o_Representative_ID = 7, o_Total_cost = 500,
                    o_Order_Status = ''Cancelled'', o_Date = 11\<rparr>],
      Product := [\<lparr>p_Product_ID = 1, p_Name = ''Aspirin'', p_Category = ''Analgesic'', p_Price = 5\<rparr>],
      Inventory := [\<lparr>i_Product_ID = 1, i_Quantity = 40, i_Reorder_Level = 10, i_Location = ''A1''\<rparr>]\<rparr>"

text \<open>A connected session whose cursor raises when it is closed.\<close>

definition stuck_cursor :: session where
  "stuck_cursor = (mysql_session no_rows (\<lambda>q. False))
     \<lparr>cursor := Some \<lparr>cursor_close_raises = True, cursor_open = True\<rparr>\<rparr>"

text \<open>A runtime that prints every number the same way.\<close>

definition plain_rt :: pyrt where
  "plain_rt = \<lparr>float_of_str = (\<lambda>s. None), int_of_str = (\<lambda>s. None),
     fmt_money = (\<lambda>x. ''0.00''), fmt_group = (\<lambda>x. ''0''), str_num = (\<lambda>x. ''0''),
     str_date = (\<lambda>d. ''1970-01-01'')\<rparr>"

text \<open>A database whose only order is cancelled; the order has one line, of 500.00.\<close>

definition only_cancelled :: database where
  "only_cancelled = no_rows
     \<lparr>Orders := [\<lparr>o_Order_ID = 2, o_Representative_ID = 7, o_Total_cost = 500,
                    o_Order_Status = ''Cancelled'', o_Date = 11\<rparr>],
      Product := [\<lparr>p_Product_ID = 1, p_Name = ''Aspirin'', p_Category = ''Analgesic'', p_Price = 5\<rparr>],
      Inventory := [\<lparr>i_Product_ID = 1, i_Quantity = 40, i_Reorder_Level = 10, i_Location = ''A1''\<rparr>],
      Involvement := [\<lparr>inv_Product_ID = 1, inv_Order_ID = 2, inv_Quantity_Ordered = 100,
                        inv_Line_Total = 500\<rparr>]\<rparr>"

text \<open>A product with no stock and a reorder level below zero.\<close>

definition negative_level :: database where
  "negative_level = no_rows
     \<lparr>Product := [\<lparr>p_Product_ID = 1, p_Name = ''Aspirin'', p_Category = ''Analgesic'', p_Price = 5\<rparr>],
      Inventory := [\<lparr>i_Product_ID = 1, i_Quantity = 0, i_Reorder_Level = - 1, i_Location = ''A1''\<rparr>]\<rparr>"

text \<open>Three representatives of one region: one sold 100.00 (and has a cancelled order
  of 250.00), one sold 300.00, one has no order.\<close>

definition three_reps :: database where
  "three_reps = no_rows
     \<lparr>Region := [\<lparr>r_Region_ID = 1, r_Name = ''North''\<rparr>],
      Sales_Representative :=
        [\<lparr>sr_Representative_ID = 1, sr_Name = ''Bob'', sr_Region_ID = 1, sr_Performance_Rating = 3\<rparr>,
         \<lparr>sr_Representative_ID = 2, sr_Name = ''Ann'', sr_Region_ID = 1, sr_Performance_Rating = 4\<rparr>,
         \<lparr>sr_Representative_ID = 3, sr_Name = ''Cy'', sr_Region_ID = 1, sr_Performance_Rating = 2\<rparr>],
      Orders :=
        [\<lparr>o_Order_ID = 1, o_Representative_ID = 1, o_Total_cost = 100,
           o_Order_Status = ''Delivered'', o_Date = 10\<rparr>,
         \<lparr>o_Order_ID = 2, o_Representative_ID = 1, o_Total_cost = 250,
           o_Order_Status = ''Cancelled'', o_Date = 11\<rparr>,
         \<lparr>o_Order_ID = 3, o_Representative_ID = 2, o_Total_cost = 300,
           o_Order_Status = ''Shipped'', o_Date = 12\<rparr>],
      CURDATE := 20\<rparr>"

text \<open>A product with 3 in stock at a reorder level of 10, and one with none in stock
  at a reorder level of 5.\<close>

definition low_stock :: database where
  "low_stock = no_rows
     \<lparr>Product := [\<lparr>p_Product_ID = 1, p_Name = ''Aspirin'', p_Category = ''Analgesic'', p_Price = 5\<rparr>],
      Inventory := [\<lparr>i_Product_ID = 1, i_Quantity = 3, i_Reorder_Level = 10, i_Location = ''A1''\<rparr>]\<rparr>"

definition no_stock :: database where
  "no_stock = no_rows
     \<lparr>Product := [\<lparr>p_Product_ID = 1, p_Name = ''Aspirin'', p_Category = ''Analgesic'', p_Price = 5\<rparr>],
      Inventory := [\<lparr>i_Product_ID = 1, i_Quantity = 0, i_Reorder_Level = 5, i_Location = ''A1''\<rparr>]\<rparr>"

section \<open>Properties\<close>

subsection \<open>Auxiliary facts\<close>

lemma bindE_Inr [simp]: "bindE (Inr x) f = f x"
  by (simp add: bindE_def)

lemma bindE_Inl [simp]: "bindE (Inl e) f = Inl e"
  by (simp add: bindE_def)

lemma bindE_eq_Inr: "bindE m f = Inr y \<longleftrightarrow> (\<exists>x. m = Inr x \<and> f x = Inr y)"
  by (cases m) simp_all

lemma execute_query_returns: "\<exists>df. execute_query s query params = Inr df"
  by (simp add: execute_query_def split: sum.split)

lemma execute_query_disconnected:
  "\<not> connected s \<Longrightarrow> execute_query s query params = Inr DataFrame"
  by (simp add: execute_query_def)

subsection \<open>The gateway fails soft\<close>

text \<open>
  C1, as the code has it: whatever the query text and the parameters,
  \<^verbatim>\<open>execute_query\<close> returns a frame and never raises; when the session is not
  connected, or the execution raises, the frame is \<^verbatim>\<open>pd.DataFrame()\<close>, which has
  no row and no column.
\<close>

theorem execute_query_fail_soft:
  "(\<exists>df. execute_query s query params = Inr df) \<and>
   (\<not> connected s \<or> (\<exists>e. read_sql query (connection s) params = Inl e)
      \<longrightarrow> execute_query s query params = Inr DataFrame \<and> rows DataFrame = [] \<and> columns DataFrame = [])"
  by (auto simp: execute_query_def DataFrame_def split: sum.split)

theorem execute_query_fail_soft_witness:
  "\<not> connected init \<and> execute_query init revenue_query None = Inr DataFrame
   \<and> rows DataFrame = [] \<and> columns DataFrame = []"
  using execute_query_fail_soft [of init revenue_query None] by (simp add: init_def)

text \<open>
  C1 as the specification words it asks for the columns to be defined in the empty
  frame. On a session that never connected, the revenue query comes back without its
  column \<open>total_revenue\<close>, and without any column.
\<close>

theorem execute_query_no_columns:
  "execute_query init revenue_query None = Inr DataFrame \<and> columns DataFrame = []
   \<and> ''total_revenue'' \<notin> set (columns DataFrame)"
  by (simp add: execute_query_def init_def DataFrame_def)

subsection \<open>Closing the session\<close>

lemma close_connection_returns: "\<exists>s'. close_connection s = Inr s'"
  by (simp add: close_connection_def Let_def split: sum.split option.split)

lemma close_connection_clean:
  "close_connection s = Inr s' \<Longrightarrow>
   (\<forall>c. cursor s = Some c \<longrightarrow> \<not> cursor_close_raises c) \<Longrightarrow>
   (\<forall>c. connection s = Some c \<longrightarrow> \<not> conn_close_raises c) \<Longrightarrow> \<not> connected s'"
  by (auto simp: close_connection_def Let_def cursor_close_def conn_close_def
      split: sum.splits option.splits if_splits)

text \<open>
  C3 at a connected session whose cursor raises on \<^verbatim>\<open>close()\<close>: the handler
  swallows the error, so \<^verbatim>\<open>close_connection\<close> returns, but the assignment
  \<^verbatim>\<open>self.connected = False\<close> and the closing of the connection were skipped. The
  session is unchanged and its flag still says connected.
\<close>

theorem close_connection_stuck_cursor:
  "close_connection stuck_cursor = Inr stuck_cursor \<and> connected stuck_cursor"
  by (simp add: close_connection_def stuck_cursor_def mysql_session_def cursor_close_def)

subsection \<open>The executive summary\<close>

lemma summary_value_empty: "df_empty df \<Longrightarrow> summary_value df col conv = Inr (PyInt 0)"
  by (simp add: summary_value_def)

lemma zero_summary_dom: "dom zero_summary = summary_keys"
  unfolding zero_summary_def summary_keys_def
  by (simp only: dom_fun_upd dom_empty option.distinct if_False insert_commute)

lemma zero_summary_values: "k \<in> summary_keys \<Longrightarrow> zero_summary k = Some (PyInt 0)"
  unfolding zero_summary_def summary_keys_def
  by (auto simp only: fun_upd_apply insert_iff empty_iff split: if_splits)

lemma get_executive_summary_empty:
  assumes "execute_query s revenue_query None = Inr d1" "df_empty d1"
      and "execute_query s orders_query None = Inr d2" "df_empty d2"
      and "execute_query s reps_query None = Inr d3" "df_empty d3"
      and "execute_query s inventory_query None = Inr d4" "df_empty d4"
  shows "get_executive_summary rt s = Inr zero_summary"
proof -
  have pos: "\<not> py_positive (PyInt 0)" by (simp add: py_positive_def)
  have get: "dict_get [''total_revenue'' \<mapsto> PyInt 0, ''total_orders'' \<mapsto> PyInt 0,
               ''active_representatives'' \<mapsto> PyInt 0, ''inventory_value'' \<mapsto> PyInt 0] ''total_orders''
             = Inr (PyInt 0)"
    by (simp add: dict_get_def)
  show ?thesis
    unfolding get_executive_summary_def zero_summary_def
    by (simp only: assms summary_value_empty bindE_Inr Let_def get pos if_False)
qed

lemma init_query_empty: "\<exists>df. execute_query init q None = Inr df \<and> df_empty df"
  by (simp add: execute_query_def init_def DataFrame_def df_empty_def)

text \<open>
  C10: when each of the four queries of the summary yields an empty frame,
  \<^verbatim>\<open>get_executive_summary\<close> returns (it does not raise) the dictionary whose keys
  are exactly \<open>total_revenue\<close>, \<open>total_orders\<close>, \<open>active_representatives\<close>,
  \<open>inventory_value\<close> and \<open>average_order_value\<close>, each bound to 0.
\<close>

theorem summary_of_empty_tables:
  assumes "\<forall>q \<in> {revenue_query, orders_query, reps_query, inventory_query}.
             \<exists>df. execute_query s q None = Inr df \<and> df_empty df"
  shows "get_executive_summary rt s = Inr zero_summary \<and> dom zero_summary = summary_keys
           \<and> (\<forall>k \<in> summary_keys. zero_summary k = Some (PyInt 0))"
proof -
  from assms obtain d1 where d1: "execute_query s revenue_query None = Inr d1" "df_empty d1"
    by (auto simp only: insert_iff)
  from assms obtain d2 where d2: "execute_query s orders_query None = Inr d2" "df_empty d2"
    by (auto simp only: insert_iff)
  from assms obtain d3 where d3: "execute_query s reps_query None = Inr d3" "df_empty d3"
    by (auto simp only: insert_iff)
  from assms obtain d4 where d4: "execute_query s inventory_query None = Inr d4" "df_empty d4"
    by (auto simp only: insert_iff)
  have "get_executive_summary rt s = Inr zero_summary"
    by (rule get_executive_summary_empty [OF d1 d2 d3 d4])
  moreover have "\<forall>k \<in> summary_keys. zero_summary k = Some (PyInt 0)"
    using zero_summary_values by (rule ballI)
  ultimately show ?thesis
    using zero_summary_dom by (intro conjI)
qed

text \<open>The session that never connected is such a state.\<close>

theorem summary_of_empty_tables_witness:
  "get_executive_summary plain_rt init = Inr zero_summary \<and> dom zero_summary = summary_keys
   \<and> zero_summary ''total_revenue'' = Some (PyInt 0)"
proof -
  have h: "\<forall>q \<in> {revenue_query, orders_query, reps_query, inventory_query}.
             \<exists>df. execute_query init q None = Inr df \<and> df_empty df"
    using init_query_empty by (rule ballI)
  have "zero_summary ''total_revenue'' = Some (PyInt 0)"
    by (simp add: zero_summary_def)
  with summary_of_empty_tables [OF h, of plain_rt] show ?thesis
    by blast
qed

subsection \<open>The engine's answers\<close>

lemma catalogue_revenue: "map_of (catalogue db) revenue_query = Some (revenue_result db)"
  by (simp add: catalogue_def)

lemma catalogue_orders: "map_of (catalogue db) orders_query = Some (orders_result db)"
  by (simp add: catalogue_def revenue_query_def orders_query_def)

lemma catalogue_reps: "map_of (catalogue db) reps_query = Some (reps_result db)"
  by (simp add: catalogue_def revenue_query_def orders_query_def reps_query_def)

lemma catalogue_inventory: "map_of (catalogue db) inventory_query = Some (inventory_result db)"
  by (simp add: catalogue_def revenue_query_def orders_query_def reps_query_def inventory_query_def)

lemma catalogue_sales:
  "map_of (catalogue db) sales_performance_query = Some (sales_performance_result db)"
  by (simp add: catalogue_def revenue_query_def orders_query_def reps_query_def inventory_query_def
      sales_performance_query_def)

lemma catalogue_inventory_status:
  "map_of (catalogue db) inventory_status_query = Some (inventory_status_result db)"
  by (simp add: catalogue_def revenue_query_def orders_query_def reps_query_def inventory_query_def
      sales_performance_query_def inventory_status_query_def)

lemma catalogue_regional:
  "map_of (catalogue db) regional_performance_query = Some (regional_performance_result db)"
  by (simp add: catalogue_def revenue_query_def orders_query_def reps_query_def inventory_query_def
      sales_performance_query_def inventory_status_query_def regional_performance_query_def)

lemma catalogue_product:
  "map_of (catalogue db) product_performance_query = Some (product_performance_result db)"
  by (simp add: catalogue_def revenue_query_def orders_query_def reps_query_def inventory_query_def
      sales_performance_query_def inventory_status_query_def regional_performance_query_def
      customer_segments_query_def product_performance_query_def)

lemma mysql_execute:
  "map_of (catalogue db) q = Some (cols, data) \<Longrightarrow> \<not> broken q \<Longrightarrow>
   execute_query (mysql_session db broken) q params = Inr (from_records cols data)"
  by (simp add: execute_query_def mysql_session_def read_sql_def mysql_run_def)

lemma mysql_execute_broken:
  "broken q \<Longrightarrow> execute_query (mysql_session db broken) q params = Inr DataFrame"
  by (simp add: execute_query_def mysql_session_def read_sql_def mysql_run_def)

lemma from_records_single:
  "from_records [c] [[v]] = \<lparr>columns = [c], rows = [[plain_cell v]]\<rparr>"
  by (cases v) (simp_all add: from_records_def pd_cell_def column_values_def is_num_def is_int_def
      plain_cell_def float_cell_def)

lemma two_orders_summary:
  "get_executive_summary rt (mysql_session two_orders (\<lambda>q. False)) =
     Inr [''total_revenue'' \<mapsto> PyFloat 100, ''total_orders'' \<mapsto> PyInt 1,
          ''active_representatives'' \<mapsto> PyInt 0, ''inventory_value'' \<mapsto> PyFloat 200,
          ''average_order_value'' \<mapsto> PyFloat 100]"
proof -
  let ?s = "mysql_session two_orders (\<lambda>q. False)"
  have r: "execute_query ?s revenue_query None = Inr \<lparr>columns = [''total_revenue''], rows = [[NumV 100]]\<rparr>"
    by (simp add: mysql_execute [OF catalogue_revenue [unfolded revenue_result_def]] from_records_single
        two_orders_def no_rows_def not_cancelled_def sql_sum_def non_null_def opt_dec_def plain_cell_def)
  have o: "execute_query ?s orders_query None = Inr \<lparr>columns = [''total_orders''], rows = [[IntV 1]]\<rparr>"
    by (simp add: mysql_execute [OF catalogue_orders [unfolded orders_result_def]] from_records_single
        two_orders_def no_rows_def not_cancelled_def plain_cell_def)
  have p: "execute_query ?s reps_query None = Inr \<lparr>columns = [''active_reps''], rows = [[IntV 0]]\<rparr>"
    by (simp add: mysql_execute [OF catalogue_reps [unfolded reps_result_def]] from_records_single
        two_orders_def no_rows_def count_distinct_def non_null_def plain_cell_def)
  have i: "execute_query ?s inventory_query None = Inr \<lparr>columns = [''inventory_value''], rows = [[NumV 200]]\<rparr>"
    by (simp add: mysql_execute [OF catalogue_inventory [unfolded inventory_result_def]] from_records_single
        two_orders_def no_rows_def product_inventory_def inner_join_def sql_sum_def non_null_def
        opt_dec_def plain_cell_def)
  show ?thesis
    unfolding get_executive_summary_def
    by (simp add: r o p i summary_value_def df_empty_def iloc0_def row_get_def py_float_def
        as_int_def py_int_def dict_get_def py_positive_def truediv_def num_val_def)
qed

lemma as_int_shape: "as_int rt c = Inr v \<Longrightarrow> \<exists>n. v = PyInt n"
  by (auto simp: as_int_def bindE_eq_Inr)

lemma summary_value_as_int: "summary_value df col (as_int rt) = Inr v \<Longrightarrow> \<exists>n. v = PyInt n"
  by (auto simp: summary_value_def bindE_eq_Inr dest: as_int_shape split: if_splits)

lemma py_float_no_division [simp]: "py_float rt c \<noteq> Inl ZeroDivisionError"
  by (simp add: py_float_def split: cell.split option.split)

lemma as_int_no_division [simp]: "as_int rt c \<noteq> Inl ZeroDivisionError"
  by (simp add: as_int_def py_int_def bindE_def split: cell.split option.split sum.split)

lemma iloc0_no_division [simp]: "iloc0 df col \<noteq> Inl ZeroDivisionError"
  by (simp add: iloc0_def row_get_def split: list.split option.split)

lemma summary_value_no_division:
  "(\<And>c. conv c \<noteq> Inl ZeroDivisionError) \<Longrightarrow> summary_value df col conv \<noteq> Inl ZeroDivisionError"
  using iloc0_no_division [of df col]
  by (auto simp: summary_value_def bindE_def split: sum.split)

lemma truediv_positive: "py_positive n \<Longrightarrow> \<exists>a. truediv r n = Inr a"
  by (auto simp: truediv_def py_positive_def num_val_def split: pynum.splits option.splits)

lemma truediv_no_division: "py_positive n \<Longrightarrow> truediv r n \<noteq> Inl e"
  using truediv_positive [of n r] by auto

text \<open>
  The guard of the division: no run of the summary ends in a division by zero, and a
  summary that is returned holds an int under \<open>total_orders\<close>; when that is positive the
  average is the quotient, and when it is 0 the average is the int 0.
\<close>

lemma average_order_value_guarded:
  "get_executive_summary rt s \<noteq> Inl ZeroDivisionError \<and>
   (\<forall>summary. get_executive_summary rt s = Inr summary \<longrightarrow>
      (\<exists>revenue n average.
         summary ''total_revenue'' = Some revenue \<and> summary ''total_orders'' = Some (PyInt n) \<and>
         summary ''average_order_value'' = Some average \<and>
         (0 < n \<longrightarrow> truediv revenue (PyInt n) = Inr average) \<and>
         (n = 0 \<longrightarrow> average = PyInt 0)))"
proof -
  obtain d1 d2 d3 d4 where d:
    "execute_query s revenue_query None = Inr d1" "execute_query s orders_query None = Inr d2"
    "execute_query s reps_query None = Inr d3" "execute_query s inventory_query None = Inr d4"
    using execute_query_returns by metis
  define v1 where "v1 = summary_value d1 ''total_revenue'' (py_float rt)"
  define v2 where "v2 = summary_value d2 ''total_orders'' (as_int rt)"
  define v3 where "v3 = summary_value d3 ''active_reps'' (as_int rt)"
  define v4 where "v4 = summary_value d4 ''inventory_value'' (py_float rt)"
  have nz: "v1 \<noteq> Inl ZeroDivisionError" "v2 \<noteq> Inl ZeroDivisionError"
    "v3 \<noteq> Inl ZeroDivisionError" "v4 \<noteq> Inl ZeroDivisionError"
    by (simp_all add: v1_def v2_def v3_def v4_def summary_value_no_division)
  have shape: "\<And>x. v2 = Inr x \<Longrightarrow> \<exists>n. x = PyInt n"
    unfolding v2_def by (rule summary_value_as_int)
  have unfold: "get_executive_summary rt s =
     bindE v1 (\<lambda>total_revenue. bindE v2 (\<lambda>total_orders. bindE v3 (\<lambda>active_reps. bindE v4 (\<lambda>inventory_value.
       if py_positive total_orders
       then bindE (truediv total_revenue total_orders) (\<lambda>a.
              Inr [''total_revenue'' \<mapsto> total_revenue, ''total_orders'' \<mapsto> total_orders,
                   ''active_representatives'' \<mapsto> active_reps, ''inventory_value'' \<mapsto> inventory_value,
                   ''average_order_value'' \<mapsto> a])
       else Inr [''total_revenue'' \<mapsto> total_revenue, ''total_orders'' \<mapsto> total_orders,
                   ''active_representatives'' \<mapsto> active_reps, ''inventory_value'' \<mapsto> inventory_value,
                   ''average_order_value'' \<mapsto> PyInt 0]))))"
    unfolding get_executive_summary_def v1_def v2_def v3_def v4_def
    by (simp add: d dict_get_def Let_def cong: if_cong)
  show ?thesis
    unfolding unfold using nz shape
    by (auto simp: bindE_def py_positive_def truediv_no_division split: sum.splits if_splits
        dest: truediv_positive)
qed

text \<open>The database with the delivered order of 100.00: one order, average 100.\<close>

lemma average_order_value_example:
  "get_executive_summary plain_rt (mysql_session two_orders (\<lambda>q. False)) \<noteq> Inl ZeroDivisionError \<and>
   (\<exists>summary. get_executive_summary plain_rt (mysql_session two_orders (\<lambda>q. False)) = Inr summary \<and>
      summary ''total_orders'' = Some (PyInt 1) \<and>
      summary ''average_order_value'' = Some (PyFloat 100) \<and>
      truediv (PyFloat 100) (PyInt 1) = Inr (PyFloat 100))"
  using average_order_value_guarded [of plain_rt "mysql_session two_orders (\<lambda>q. False)"]
  by (auto simp: two_orders_summary)

text \<open>
  On a working connection, the sum over no order is NULL: the frame has one row, which
  holds None, so it is not empty and \<^verbatim>\<open>float\<close> is applied to None.
\<close>

lemma summary_raises_on_null_revenue:
  assumes "filter not_cancelled (Orders db) = []" "\<not> broken revenue_query"
  shows "get_executive_summary rt (mysql_session db broken) = Inl TypeError"
proof -
  have "execute_query (mysql_session db broken) revenue_query None
          = Inr \<lparr>columns = [''total_revenue''], rows = [[PyNone]]\<rparr>"
    using assms
    by (simp add: mysql_execute [OF catalogue_revenue [unfolded revenue_result_def]]
        from_records_single sql_sum_def non_null_def opt_dec_def plain_cell_def)
  then show ?thesis
    unfolding get_executive_summary_def
    by (simp add: summary_value_def df_empty_def iloc0_def row_get_def py_float_def)
qed

text \<open>
  C5 at a working session on the database whose only order is cancelled: no summary is
  returned, so no \<open>average_order_value\<close> of 0 either; the call ends in the TypeError
  of \<^verbatim>\<open>float(None)\<close>.
\<close>

theorem summary_raises_without_orders:
  "get_executive_summary rt (mysql_session only_cancelled (\<lambda>q. False)) = Inl TypeError"
  by (rule summary_raises_on_null_revenue)
     (simp_all add: only_cancelled_def no_rows_def not_cancelled_def)

subsection \<open>The report on empty frames\<close>

lemma summary_section_zero:
  "get_executive_summary rt s = Inr zero_summary \<Longrightarrow>
   summary_section rt s =
     Inr [''EXECUTIVE SUMMARY'', replicate 50 CHR ''-'',
          ''Total Revenue: $'' @ fmt_money rt (PyInt 0),
          ''Total Orders: '' @ fmt_group rt (PyInt 0),
          ''Active Representatives: '' @ str_num rt (PyInt 0),
          ''Average Order Value: $'' @ fmt_money rt (PyInt 0),
          ''Total Inventory Value: $'' @ fmt_money rt (PyInt 0),
          '''']"
  by (simp add: summary_section_def zero_summary_def dict_get_def)

lemma sales_section_empty:
  "analyze_sales_performance s = Inr df \<Longrightarrow> df_empty df \<Longrightarrow> sales_section rt s = Inr []"
  by (simp add: sales_section_def)

text \<open>The column is read before the frame is tested for emptiness.\<close>

lemma inventory_alerts_no_column:
  "analyze_inventory_status s = Inr df \<Longrightarrow> ''Stock_Status'' \<notin> set (columns df) \<Longrightarrow>
   inventory_alerts rt s = Inl KeyError"
  by (simp add: inventory_alerts_def critical_items_def df_column_def)

text \<open>
  C2 at the session that never connected, where every metric query returns the empty
  frame: the summary and the sales block degrade, the inventory block raises KeyError,
  and no report is returned.
\<close>

theorem report_raises_on_empty_frames:
  "generate_detailed_report rt now init = Inl KeyError"
proof -
  have q: "\<And>query. execute_query init query None = Inr DataFrame"
    by (simp add: execute_query_def init_def)
  have e: "df_empty DataFrame" "''Stock_Status'' \<notin> set (columns DataFrame)"
    by (simp_all add: df_empty_def DataFrame_def)
  have "get_executive_summary rt init = Inr zero_summary"
    by (rule get_executive_summary_empty [OF q e(1) q e(1) q e(1) q e(1)])
  then obtain ls where 1: "summary_section rt init = Inr ls"
    using summary_section_zero by blast
  have 2: "sales_section rt init = Inr []"
    by (rule sales_section_empty [OF _ e(1)]) (simp add: analyze_sales_performance_def q)
  have 3: "inventory_alerts rt init = Inl KeyError"
    by (rule inventory_alerts_no_column [OF _ e(2)]) (simp add: analyze_inventory_status_def q)
  show ?thesis
    by (simp add: generate_detailed_report_def 1 2 3)
qed

subsection \<open>The inventory alerts of the report\<close>

text \<open>With the column present and no critical row, the block appends nothing.\<close>

lemma inventory_alerts_omitted:
  assumes "analyze_inventory_status s = Inr df" "''Stock_Status'' \<in> set (columns df)"
      and "\<forall>r \<in> set (rows df). map_of (zip (columns df) r) ''Stock_Status'' \<noteq> Some (StrV ''CRITICAL'')
             \<and> map_of (zip (columns df) r) ''Stock_Status'' \<noteq> Some (StrV ''OUT_OF_STOCK'')"
  shows "inventory_alerts rt s = Inr []"
proof -
  have "filter (\<lambda>(r, c). c = StrV ''CRITICAL'' \<or> c = StrV ''OUT_OF_STOCK'')
          (zip (rows df)
             (map (\<lambda>r. case map_of (zip (columns df) r) ''Stock_Status'' of None \<Rightarrow> PyNone | Some c \<Rightarrow> c)
                (rows df))) = []"
    using assms(3)
    by (auto simp: filter_empty_conv zip_map2 split: option.splits dest: set_zip_rightD)
  then show ?thesis
    using assms(1,2)
    by (simp add: inventory_alerts_def critical_items_def df_column_def df_empty_def)
qed

lemma status_query_distinct:
  "revenue_query \<noteq> inventory_status_query" "orders_query \<noteq> inventory_status_query"
  "reps_query \<noteq> inventory_status_query" "inventory_query \<noteq> inventory_status_query"
  "sales_performance_query \<noteq> inventory_status_query"
  by (simp_all add: revenue_query_def orders_query_def reps_query_def inventory_query_def
      sales_performance_query_def inventory_status_query_def)

lemma two_orders_summary_running:
  assumes "\<not> broken revenue_query" "\<not> broken orders_query" "\<not> broken reps_query"
    "\<not> broken inventory_query"
  shows "get_executive_summary rt (mysql_session two_orders broken) =
     Inr [''total_revenue'' \<mapsto> PyFloat 100, ''total_orders'' \<mapsto> PyInt 1,
          ''active_representatives'' \<mapsto> PyInt 0, ''inventory_value'' \<mapsto> PyFloat 200,
          ''average_order_value'' \<mapsto> PyFloat 100]"
proof -
  let ?s = "mysql_session two_orders broken"
  have r: "execute_query ?s revenue_query None = Inr \<lparr>columns = [''total_revenue''], rows = [[NumV 100]]\<rparr>"
    using assms
    by (simp add: mysql_execute [OF catalogue_revenue [unfolded revenue_result_def]] from_records_single
        two_orders_def no_rows_def not_cancelled_def sql_sum_def non_null_def opt_dec_def plain_cell_def)
  have o: "execute_query ?s orders_query None = Inr \<lparr>columns = [''total_orders''], rows = [[IntV 1]]\<rparr>"
    using assms
    by (simp add: mysql_execute [OF catalogue_orders [unfolded orders_result_def]] from_records_single
        two_orders_def no_rows_def not_cancelled_def plain_cell_def)
  have p: "execute_query ?s reps_query None = Inr \<lparr>columns = [''active_reps''], rows = [[IntV 0]]\<rparr>"
    using assms
    by (simp add: mysql_execute [OF catalogue_reps [unfolded reps_result_def]] from_records_single
        two_orders_def no_rows_def count_distinct_def non_null_def plain_cell_def)
  have i: "execute_query ?s inventory_query None = Inr \<lparr>columns = [''inventory_value''], rows = [[NumV 200]]\<rparr>"
    using assms
    by (simp add: mysql_execute [OF catalogue_inventory [unfolded inventory_result_def]] from_records_single
        two_orders_def no_rows_def product_inventory_def inner_join_def sql_sum_def non_null_def
        opt_dec_def plain_cell_def)
  show ?thesis
    unfolding get_executive_summary_def
    by (simp add: r o p i summary_value_def df_empty_def iloc0_def row_get_def py_float_def
        as_int_def py_int_def dict_get_def py_positive_def truediv_def num_val_def)
qed

lemma two_orders_no_sales:
  "\<not> broken sales_performance_query \<Longrightarrow>
   \<exists>df. analyze_sales_performance (mysql_session two_orders broken) = Inr df \<and> df_empty df"
  by (simp add: analyze_sales_performance_def
      mysql_execute [OF catalogue_sales [unfolded sales_performance_result_def]]
      from_records_def df_empty_def sales_groups_def sales_from_def two_orders_def no_rows_def
      inner_join_def left_join_def group_by_def order_by_desc_def)

text \<open>
  C8 at a connected session on the database with the two orders, when the
  inventory-status query fails on the way: \<^verbatim>\<open>analyze_inventory_status\<close> returns the
  empty frame, which has no critical row, and the report is not returned without the
  alerts section: it is not returned at all.
\<close>

theorem report_raises_on_failed_status_query:
  "generate_detailed_report rt now (mysql_session two_orders (\<lambda>q. q = inventory_status_query))
     = Inl KeyError"
proof -
  let ?s = "mysql_session two_orders (\<lambda>q. q = inventory_status_query)"
  obtain ls where 1: "summary_section rt ?s = Inr ls"
    unfolding summary_section_def
    by (simp add: two_orders_summary_running status_query_distinct dict_get_def)
  obtain df where "analyze_sales_performance ?s = Inr df" "df_empty df"
    using two_orders_no_sales [of "\<lambda>q. q = inventory_status_query"] status_query_distinct(5)
    by blast
  then have 2: "sales_section rt ?s = Inr []"
    by (rule sales_section_empty)
  have "analyze_inventory_status ?s = Inr DataFrame"
    by (simp add: analyze_inventory_status_def mysql_execute_broken)
  then have 3: "inventory_alerts rt ?s = Inl KeyError"
    by (rule inventory_alerts_no_column) (simp add: DataFrame_def)
  show ?thesis
    by (simp add: generate_detailed_report_def 1 2 3)
qed

subsection \<open>Cancelled orders in the aggregates\<close>

text \<open>
  C7 at the database whose only order is cancelled: the one product's
  \<open>Total_Revenue\<close> is 500.00, the line of the cancelled order. The join to
  \<open>Orders\<close> carries the test on the status, but it is a left join and the sum is
  taken over the lines of \<open>Involvement\<close>, so no line is dropped.
\<close>

theorem cancelled_line_in_product_revenue:
  "bindE (analyze_product_performance (mysql_session only_cancelled (\<lambda>q. False)))
         (\<lambda>df. df_column df ''Total_Revenue'') = Inr [NumV 500]"
  by (simp add: analyze_product_performance_def
      mysql_execute [OF catalogue_product [unfolded product_performance_result_def]]
      product_from_def left_join_def group_by_def order_by_desc_def product_select_def
      product_revenue_def quantity_sold_def sql_sum_def sql_avg_def non_null_def count_distinct_def
      turnover_ratio_def opt_dec_def opt_int_def not_cancelled_def
      only_cancelled_def no_rows_def from_records_def pd_cell_def column_values_def
      is_num_def is_int_def plain_cell_def float_cell_def upt_rec df_column_def)

text \<open>The scenario of the claim, on the summary: the cancelled 500.00 is left out.\<close>

lemma two_orders_revenue:
  "\<exists>summary. get_executive_summary rt (mysql_session two_orders (\<lambda>q. False)) = Inr summary
     \<and> summary ''total_revenue'' = Some (PyFloat 100) \<and> summary ''total_orders'' = Some (PyInt 1)"
  by (simp add: two_orders_summary)

subsection \<open>The rows of the inventory status\<close>

lemma pd_cell_str [simp]: "pd_cell col (SqlStr s) = StrV s"
  by (simp add: pd_cell_def float_cell_def plain_cell_def)

lemma pd_cell_dec [simp]: "pd_cell col (SqlDec q) = NumV q"
  by (simp add: pd_cell_def float_cell_def plain_cell_def)

lemma pd_cell_int: "list_all is_int col \<Longrightarrow> pd_cell col (SqlInt n) = IntV n"
  by (simp add: pd_cell_def plain_cell_def)

lemma from_records_enumerate:
  "from_records cols data =
     \<lparr>columns = cols,
      rows = map (\<lambda>r. map (\<lambda>(j, v). pd_cell (column_values data j) v) (enumerate 0 r)) data\<rparr>"
  by (simp add: from_records_def enumerate_eq_zip)

lemma inventory_stock_column:
  "list_all is_int (column_values (map inventory_select xs) (Suc (Suc (Suc 0))))"
  "list_all is_int (column_values (map inventory_select xs) (Suc (Suc (Suc (Suc 0)))))"
  by (simp_all add: column_values_def inventory_select_def is_int_def list_all_iff
      split: prod.split)

lemma inventory_rows:
  "rows (from_records cols (map inventory_select xs)) =
     map (\<lambda>(p, i). [StrV (p_Name p), StrV (p_Category p), NumV (p_Price p), IntV (i_Quantity i),
                     IntV (i_Reorder_Level i), NumV (p_Price p * of_int (i_Quantity i)),
                     StrV (i_Location i), StrV (stock_status (i_Quantity i) (i_Reorder_Level i)),
                     StrV (action_required (i_Quantity i) (i_Reorder_Level i))]) xs"
proof -
  have "\<And>x. map (\<lambda>(j, v). pd_cell (column_values (map inventory_select xs) j) v)
                (enumerate 0 (inventory_select x)) =
            (case x of (p, i) \<Rightarrow>
                    [StrV (p_Name p), StrV (p_Category p), NumV (p_Price p), IntV (i_Quantity i),
                     IntV (i_Reorder_Level i), NumV (p_Price p * of_int (i_Quantity i)),
                     StrV (i_Location i), StrV (stock_status (i_Quantity i) (i_Reorder_Level i)),
                     StrV (action_required (i_Quantity i) (i_Reorder_Level i))])"
    by (simp add: inventory_select_def pd_cell_int inventory_stock_column split: prod.split)
  then show ?thesis
    by (simp add: from_records_enumerate)
qed

lemma inventory_frame_row:
  assumes "analyze_inventory_status (mysql_session db broken) = Inr df" "r \<in> set (rows df)"
  shows "\<exists>p i. (p, i) \<in> set (product_inventory db) \<and>
           columns df = [''Product_Name'', ''Category'', ''Price'', ''Current_Stock'',
                         ''Reorder_Level'', ''Total_Value'', ''Location'', ''Stock_Status'',
                         ''Action_Required''] \<and>
           r = [StrV (p_Name p), StrV (p_Category p), NumV (p_Price p), IntV (i_Quantity i),
                IntV (i_Reorder_Level i), NumV (p_Price p * of_int (i_Quantity i)),
                StrV (i_Location i), StrV (stock_status (i_Quantity i) (i_Reorder_Level i)),
                StrV (action_required (i_Quantity i) (i_Reorder_Level i))]"
proof -
  define down where "down = broken inventory_status_query"
  show ?thesis
  proof (cases down)
  case True
  then have "df = DataFrame"
    using assms(1) unfolding down_def by (simp add: analyze_inventory_status_def mysql_execute_broken)
  then show ?thesis using assms(2) by (simp add: DataFrame_def)
next
  case False
  then have 2: "\<not> broken inventory_status_query" unfolding down_def .
  let ?cols = "[''Product_Name'', ''Category'', ''Price'', ''Current_Stock'',
                ''Reorder_Level'', ''Total_Value'', ''Location'', ''Stock_Status'',
                ''Action_Required'']"
  let ?data = "map inventory_select (sort_key inventory_order (product_inventory db))"
  have df: "df = from_records ?cols ?data"
    using assms(1) 2
    by (simp add: analyze_inventory_status_def
        mysql_execute [OF catalogue_inventory_status [unfolded inventory_status_result_def]])
  have c: "columns df = ?cols"
    unfolding df by (simp add: from_records_def)
  from assms(2) obtain x where x: "x \<in> set (product_inventory db)"
    and r: "r = (case x of (p, i) \<Rightarrow>
                [StrV (p_Name p), StrV (p_Category p), NumV (p_Price p), IntV (i_Quantity i),
                 IntV (i_Reorder_Level i), NumV (p_Price p * of_int (i_Quantity i)),
                 StrV (i_Location i), StrV (stock_status (i_Quantity i) (i_Reorder_Level i)),
                 StrV (action_required (i_Quantity i) (i_Reorder_Level i))])"
    unfolding df inventory_rows by auto
  obtain p i where "x = (p, i)" by (cases x)
  with x r c show ?thesis by auto
  qed
qed

lemma stock_status_refines: "stock_status stock level = stock_status_spec stock level"
proof -
  have a: "((of_int stock :: rat) \<le> of_int level * (3 / 10)) = (100 * stock \<le> 30 * level)"
  proof -
    have "((of_int stock :: rat) \<le> of_int level * (3 / 10)) = ((of_int (10 * stock) :: rat) \<le> of_int (3 * level))"
      by (simp add: field_simps)
    also have "\<dots> = (10 * stock \<le> 3 * level)" by (simp only: of_int_le_iff)
    finally show ?thesis by simp
  qed
  have b: "((of_int stock :: rat) \<le> of_int level * (6 / 10)) = (100 * stock \<le> 60 * level)"
  proof -
    have "((of_int stock :: rat) \<le> of_int level * (6 / 10)) = ((of_int (10 * stock) :: rat) \<le> of_int (6 * level))"
      by (simp add: field_simps)
    also have "\<dots> = (10 * stock \<le> 6 * level)" by (simp only: of_int_le_iff)
    finally show ?thesis by simp
  qed
  show ?thesis
    unfolding stock_status_def stock_status_spec_def a b by simp
qed

lemma single_inventory_frame:
  assumes "product_inventory db = [(p, i)]" "\<not> broken inventory_status_query"
  shows "analyze_inventory_status (mysql_session db broken) =
     Inr \<lparr>columns = [''Product_Name'', ''Category'', ''Price'', ''Current_Stock'',
                     ''Reorder_Level'', ''Total_Value'', ''Location'', ''Stock_Status'',
                     ''Action_Required''],
          rows = [[StrV (p_Name p), StrV (p_Category p), NumV (p_Price p), IntV (i_Quantity i),
                   IntV (i_Reorder_Level i), NumV (p_Price p * of_int (i_Quantity i)),
                   StrV (i_Location i), StrV (stock_status (i_Quantity i) (i_Reorder_Level i)),
                   StrV (action_required (i_Quantity i) (i_Reorder_Level i))]]\<rparr>"
proof -
  have split: "\<And>c d. from_records c d = \<lparr>columns = c, rows = rows (from_records c d)\<rparr>"
    by (simp add: from_records_def)
  have rw: "rows (from_records cs [inventory_select (p, i)]) =
           [[StrV (p_Name p), StrV (p_Category p), NumV (p_Price p), IntV (i_Quantity i),
             IntV (i_Reorder_Level i), NumV (p_Price p * of_int (i_Quantity i)),
             StrV (i_Location i), StrV (stock_status (i_Quantity i) (i_Reorder_Level i)),
             StrV (action_required (i_Quantity i) (i_Reorder_Level i))]]" for cs
    using inventory_rows [of cs "[(p, i)]"] by simp
  have fr: "from_records cs [inventory_select (p, i)] =
      \<lparr>columns = cs,
       rows = [[StrV (p_Name p), StrV (p_Category p), NumV (p_Price p), IntV (i_Quantity i),
             IntV (i_Reorder_Level i), NumV (p_Price p * of_int (i_Quantity i)),
             StrV (i_Location i), StrV (stock_status (i_Quantity i) (i_Reorder_Level i)),
             StrV (action_required (i_Quantity i) (i_Reorder_Level i))]]\<rparr>" for cs
    by (subst split) (simp only: rw)
  have "analyze_inventory_status (mysql_session db broken) =
          Inr (from_records [''Product_Name'', ''Category'', ''Price'', ''Current_Stock'',
                     ''Reorder_Level'', ''Total_Value'', ''Location'', ''Stock_Status'',
                     ''Action_Required''] [inventory_select (p, i)])"
    using assms(2)
    by (simp add: analyze_inventory_status_def
        mysql_execute [OF catalogue_inventory_status [unfolded inventory_status_result_def]]
        assms(1))
  then show ?thesis
    by (simp only: fr)
qed

lemma example_inventories:
  "product_inventory low_stock =
     [(\<lparr>p_Product_ID = 1, p_Name = ''Aspirin'', p_Category = ''Analgesic'', p_Price = 5\<rparr>,
       \<lparr>i_Product_ID = 1, i_Quantity = 3, i_Reorder_Level = 10, i_Location = ''A1''\<rparr>)]"
  "product_inventory no_stock =
     [(\<lparr>p_Product_ID = 1, p_Name = ''Aspirin'', p_Category = ''Analgesic'', p_Price = 5\<rparr>,
       \<lparr>i_Product_ID = 1, i_Quantity = 0, i_Reorder_Level = 5, i_Location = ''A1''\<rparr>)]"
  "product_inventory negative_level =
     [(\<lparr>p_Product_ID = 1, p_Name = ''Aspirin'', p_Category = ''Analgesic'', p_Price = 5\<rparr>,
       \<lparr>i_Product_ID = 1, i_Quantity = 0, i_Reorder_Level = - 1, i_Location = ''A1''\<rparr>)]"
  by (simp_all add: product_inventory_def inner_join_def low_stock_def no_stock_def
      negative_level_def no_rows_def)

subsection \<open>The stock buckets\<close>

lemma spec_boundaries:
  "stock \<noteq> 0 \<Longrightarrow> 100 * stock = 30 * level \<Longrightarrow> stock_status_spec stock level = ''CRITICAL''"
  "0 < stock \<Longrightarrow> 100 * stock = 60 * level \<Longrightarrow> stock_status_spec stock level = ''LOW''"
  "0 < stock \<Longrightarrow> stock = level \<Longrightarrow> stock_status_spec stock level = ''MODERATE''"
  "100 * stock = 60 * level \<Longrightarrow>
     stock_status_spec stock level \<in> {''OUT_OF_STOCK'', ''CRITICAL'', ''LOW''}"
  "stock = level \<Longrightarrow> stock_status_spec stock level \<noteq> ''ADEQUATE''"
  by (auto simp: stock_status_spec_def)

text \<open>
  C6: in every row that \<^verbatim>\<open>analyze_inventory_status\<close> returns, the status is the
  specification's bucket of that row's stock and reorder level, and of nothing else. A
  stock that is exactly 30, 60 or 100 percent of the reorder level lies in the stricter
  bucket: CRITICAL, LOW and MODERATE for a stock above zero (a stock of zero is
  OUT_OF_STOCK by the first rule), and whatever the signs never in the laxer one.
\<close>

theorem stock_status_buckets:
  assumes "analyze_inventory_status (mysql_session db broken) = Inr df" "r \<in> set (rows df)"
  shows "\<exists>stock level status.
           row_get (columns df) r ''Current_Stock'' = Inr (IntV stock) \<and>
           row_get (columns df) r ''Reorder_Level'' = Inr (IntV level) \<and>
           row_get (columns df) r ''Stock_Status'' = Inr (StrV status) \<and>
           status = stock_status_spec stock level \<and>
           (stock \<noteq> 0 \<and> 100 * stock = 30 * level \<longrightarrow> status = ''CRITICAL'') \<and>
           (0 < stock \<and> 100 * stock = 60 * level \<longrightarrow> status = ''LOW'') \<and>
           (0 < stock \<and> stock = level \<longrightarrow> status = ''MODERATE'') \<and>
           (100 * stock = 60 * level \<longrightarrow> status \<in> {''OUT_OF_STOCK'', ''CRITICAL'', ''LOW''}) \<and>
           (stock = level \<longrightarrow> status \<noteq> ''ADEQUATE'')"
proof -
  from inventory_frame_row [OF assms] obtain p i where
    "(p, i) \<in> set (product_inventory db)" and
    c: "columns df = [''Product_Name'', ''Category'', ''Price'', ''Current_Stock'',
                      ''Reorder_Level'', ''Total_Value'', ''Location'', ''Stock_Status'',
                      ''Action_Required'']"
    and r: "r = [StrV (p_Name p), StrV (p_Category p), NumV (p_Price p), IntV (i_Quantity i),
                IntV (i_Reorder_Level i), NumV (p_Price p * of_int (i_Quantity i)),
                StrV (i_Location i), StrV (stock_status (i_Quantity i) (i_Reorder_Level i)),
                StrV (action_required (i_Quantity i) (i_Reorder_Level i))]"
    by atomize_elim
  have 1: "row_get (columns df) r ''Current_Stock'' = Inr (IntV (i_Quantity i))"
    and 2: "row_get (columns df) r ''Reorder_Level'' = Inr (IntV (i_Reorder_Level i))"
    and 3: "row_get (columns df) r ''Stock_Status'' =
              Inr (StrV (stock_status_spec (i_Quantity i) (i_Reorder_Level i)))"
    unfolding c r by (simp_all add: row_get_def stock_status_refines)
  show ?thesis
    using 1 2 3 spec_boundaries [of "i_Quantity i" "i_Reorder_Level i"] by blast
qed

text \<open>The product with 3 in stock at a reorder level of 10 lies on the 30 percent
  boundary and is CRITICAL.\<close>

theorem stock_status_buckets_witness:
  "\<exists>df r. analyze_inventory_status (mysql_session low_stock (\<lambda>q. False)) = Inr df \<and> r \<in> set (rows df) \<and>
     row_get (columns df) r ''Current_Stock'' = Inr (IntV 3) \<and>
     row_get (columns df) r ''Reorder_Level'' = Inr (IntV 10) \<and>
     row_get (columns df) r ''Stock_Status'' = Inr (StrV ''CRITICAL'')"
proof -
  let ?r = "[StrV ''Aspirin'', StrV ''Analgesic'', NumV 5, IntV 3, IntV 10, NumV (5 * of_int 3),
             StrV ''A1'', StrV (stock_status 3 10), StrV (action_required 3 10)]"
  let ?df = "\<lparr>columns = [''Product_Name'', ''Category'', ''Price'', ''Current_Stock'',
                     ''Reorder_Level'', ''Total_Value'', ''Location'', ''Stock_Status'',
                     ''Action_Required''], rows = [?r]\<rparr>"
  have f: "analyze_inventory_status (mysql_session low_stock (\<lambda>q. False)) = Inr ?df"
    using single_inventory_frame [OF example_inventories(1), of "\<lambda>q. False"] by simp
  have m: "?r \<in> set (rows ?df)" by simp
  have s: "row_get (columns ?df) ?r ''Current_Stock'' = Inr (IntV 3)"
    and l: "row_get (columns ?df) ?r ''Reorder_Level'' = Inr (IntV 10)"
    by (simp_all add: row_get_def)
  from stock_status_buckets [OF f m] s l
  have "row_get (columns ?df) ?r ''Stock_Status'' = Inr (StrV ''CRITICAL'')"
    by auto
  with f m s l show ?thesis by blast
qed

subsection \<open>A product that is out of stock\<close>




subsection \<open>The order of the sales performance\<close>

lemma set_insert_desc: "set (insert_desc key x xs) = insert x (set xs)"
  by (induction xs) auto

lemma sorted_insert_desc:
  "sorted_wrt (\<lambda>a b. key b \<le> key a) xs \<Longrightarrow> sorted_wrt (\<lambda>a b. key b \<le> key a) (insert_desc key x xs)"
  by (induction xs) (auto simp: set_insert_desc)

lemma sorted_order_by_desc: "sorted_wrt (\<lambda>a b. key b \<le> key a) (order_by_desc key xs)"
  unfolding order_by_desc_def by (induction xs) (simp_all add: sorted_insert_desc)

lemma cell_num_pd_cell: "cell_num (pd_cell col (opt_dec v)) = v"
  by (cases v) (simp_all add: opt_dec_def pd_cell_def float_cell_def plain_cell_def cell_num_def)

lemma sales_row_total:
  "total_sales [''Representative_Name'', ''Region_Name'', ''Performance_Rating'', ''Total_Orders'',
       ''Total_Sales'', ''Average_Order_Value'', ''Unique_Customers'', ''Last_Order_Date'',
       ''Days_Since_Last_Order'']
     (map (\<lambda>(j, v). pd_cell (column_values data j) v) (enumerate 0 (sales_select today kg)))
   = sales_total (snd kg)"
  by (simp add: total_sales_def row_get_def sales_select_def cell_num_pd_cell split: prod.split)

text \<open>
  C9: the frame that \<^verbatim>\<open>analyze_sales_performance\<close> returns, on any database and
  whether or not the query fails, has its rows in non-increasing order of
  \<open>Total_Sales\<close>: of any two rows, and so of any two consecutive rows, the later one
  has the smaller or equal total, a representative without sales coming last.
\<close>

theorem sales_ordered_descending:
  "\<exists>df. analyze_sales_performance (mysql_session db broken) = Inr df \<and>
     sorted_wrt (\<lambda>a b. total_sales (columns df) b \<le> total_sales (columns df) a) (rows df)"
proof -
  define down where "down = broken sales_performance_query"
  show ?thesis
  proof (cases down)
    case True
    then have "analyze_sales_performance (mysql_session db broken) = Inr DataFrame"
      unfolding down_def by (simp add: analyze_sales_performance_def mysql_execute_broken)
    then show ?thesis by (simp add: DataFrame_def)
  next
    case False
    let ?cols = "[''Representative_Name'', ''Region_Name'', ''Performance_Rating'', ''Total_Orders'',
       ''Total_Sales'', ''Average_Order_Value'', ''Unique_Customers'', ''Last_Order_Date'',
       ''Days_Since_Last_Order'']"
    let ?groups = "order_by_desc (\<lambda>kg. sales_total (snd kg)) (sales_groups db)"
    let ?data = "map (sales_select (CURDATE db)) ?groups"
    from False have df: "analyze_sales_performance (mysql_session db broken) = Inr (from_records ?cols ?data)"
      unfolding down_def
      by (simp add: analyze_sales_performance_def
          mysql_execute [OF catalogue_sales [unfolded sales_performance_result_def]])
    have "sorted_wrt (\<lambda>a b. sales_total (snd b) \<le> sales_total (snd a)) ?groups"
      by (rule sorted_order_by_desc)
    then have "sorted_wrt (\<lambda>a b. total_sales ?cols b \<le> total_sales ?cols a)
                 (rows (from_records ?cols ?data))"
      by (simp only: from_records_enumerate dataframe.simps list.map_comp comp_def
          sorted_wrt_map sales_row_total)
    then show ?thesis
      unfolding df by (simp add: from_records_def)
  qed
qed

text \<open>The three representatives come back as 300.00, 100.00 and no sales.\<close>

theorem sales_ordered_descending_witness:
  "\<exists>df. analyze_sales_performance (mysql_session three_reps (\<lambda>q. False)) = Inr df \<and>
     map (total_sales (columns df)) (rows df) = [Some 300, Some 100, None] \<and>
     sorted_wrt (\<lambda>a b. total_sales (columns df) b \<le> total_sales (columns df) a) (rows df)"
proof -
  let ?s = "mysql_session three_reps (\<lambda>q. False)"
  have t: "map (\<lambda>kg. sales_total (snd kg))
             (order_by_desc (\<lambda>kg. sales_total (snd kg)) (sales_groups three_reps))
           = [Some 300, Some 100, None]"
    by (simp add: order_by_desc_def sales_groups_def sales_from_def group_by_def left_join_def
        inner_join_def not_cancelled_def sales_total_def sql_sum_def non_null_def three_reps_def
        no_rows_def)
  have e: "analyze_sales_performance ?s =
        Inr (from_records [''Representative_Name'', ''Region_Name'', ''Performance_Rating'', ''Total_Orders'',
       ''Total_Sales'', ''Average_Order_Value'', ''Unique_Customers'', ''Last_Order_Date'',
       ''Days_Since_Last_Order'']
          (map (sales_select (CURDATE three_reps))
             (order_by_desc (\<lambda>kg. sales_total (snd kg)) (sales_groups three_reps))))"
    by (simp add: analyze_sales_performance_def
          mysql_execute [OF catalogue_sales [unfolded sales_performance_result_def]])
  from sales_ordered_descending [of three_reps "\<lambda>q. False"] obtain df where
    d: "analyze_sales_performance ?s = Inr df"
    and s: "sorted_wrt (\<lambda>a b. total_sales (columns df) b \<le> total_sales (columns df) a) (rows df)"
    by atomize_elim
  from d e have df: "df = from_records [''Representative_Name'', ''Region_Name'', ''Performance_Rating'', ''Total_Orders'',
       ''Total_Sales'', ''Average_Order_Value'', ''Unique_Customers'', ''Last_Order_Date'',
       ''Days_Since_Last_Order'']
          (map (sales_select (CURDATE three_reps))
             (order_by_desc (\<lambda>kg. sales_total (snd kg)) (sales_groups three_reps)))"
    by simp
  have "map (total_sales (columns df)) (rows df) =
          map (\<lambda>kg. sales_total (snd kg))
             (order_by_desc (\<lambda>kg. sales_total (snd kg)) (sales_groups three_reps))"
    unfolding df by (simp add: from_records_enumerate comp_def sales_row_total)
  with t have "map (total_sales (columns df)) (rows df) = [Some 300, Some 100, None]"
    by simp
  with d s show ?thesis by (intro exI conjI)
qed

end
